theory Spec2Isabelle
  imports Complex_Main
begin

section \<open>Python values, exceptions and the notebook kernel\<close>

text \<open>
  The three notebooks are sequences of calls into external libraries (pandas,
  scikit-learn, XGBoost, cleanlab, PyTorch, timm, Keras).  The libraries are not part of
  the repository, so every library entry point is a field of a record of functions that
  the notebook takes as an argument; the control flow, the indexing and the arithmetic
  that the notebooks themselves perform are written out.  A Python exception is the
  \<open>Inl\<close> branch of a sum.
\<close>

datatype exn =
  ZeroDivisionError | IndexError | KeyError | ValueError | FileNotFoundError
  | NameError | LibraryError string

definition pbind :: "exn + 'a \<Rightarrow> ('a \<Rightarrow> exn + 'b) \<Rightarrow> exn + 'b" where
  "pbind r f = (case r of Inl e \<Rightarrow> Inl e | Inr x \<Rightarrow> f x)"

subsection \<open>What a run does to the outside world\<close>

text \<open>
  A value in a pandas column: a string, a number, a missing value, an integer code (what
  \<open>LabelEncoder\<close> produces) or a code of categorical dtype.  A \<open>DataFrame\<close> is its row
  labels (the index) and its columns in order, each the list of its values.
\<close>

datatype cell = S string | N rat | NaN | Code nat | Cat nat

record frame =
  index :: "nat list"
  cols :: "(string \<times> cell list) list"

text \<open>
  An f-string is kept as its parts, so that two f-strings with different numbers in them
  are different values (as the formatted strings are in Python): a literal, a number
  printed as it is, a value of a column, a number printed with a fixed count of decimals (\<open>{x:.2f}\<close>) and a
  number rounded by \<open>round(x, n)\<close>.
\<close>

datatype fitem = Txt string | Num rat | Val cell | Fixed nat rat | Rounded nat rat

text \<open>
  The library entry points the notebooks call, one constructor for each Python name
  (\<open>E_torch_save\<close> is \<open>torch.save\<close>, \<open>E_Subset_getitem\<close> is indexing a
  \<open>torch.utils.data.Subset\<close>, and so on); \<open>E_interpreter\<close> stands for the Python
  interpreter itself, which raises \<open>ZeroDivisionError\<close> and \<open>NameError\<close>.

  The trace of a run: the calls of these entry points, every exception that is raised
  (with the entry point that raised it), every \<open>print\<close>, every value that a cell
  displays because it is the cell's last expression (a table, or the \<open>repr\<close> of the object
  an entry point returned), every shell command of a \<open>!\<close> line, every file the notebook
  writes, and every assignment \<open>a[idx] = ...\<close> into rows of an array (with the name of the
  array and the index array \<open>idx\<close>).
\<close>

datatype entry =
  E_interpreter
  | E_ImageFolder | E_StratifiedKFold_split | E_timm_create_model | E_DataLoader_iter
  | E_DataLoader | E_Subset_getitem | E_optimizer_step | E_model_call | E_torch_max | E_Tensor_sum
  | E_softmax | E_load_state_dict | E_reset_classifier | E_torch_save | E_torch_load
  | E_np_concatenate | E_ndarray_setitem | E_np_save
  | E_pd_read_csv | E_DataFrame_getitem | E_DataFrame_setitem | E_DataFrame_drop
  | E_DataFrame_iloc | E_list_index | E_LabelEncoder_fit_transform | E_astype
  | E_train_test_split | E_XGBClassifier_fit | E_XGBClassifier_predict | E_accuracy_score
  | E_cross_val_predict | E_find_label_issues
  | E_AutoTokenizer_from_pretrained | E_tokenizer_call | E_KerasWrapperModel
  | E_KerasWrapperModel_summary | E_GridSearchCV_fit | E_KerasWrapperModel_fit
  | E_KerasWrapperModel_predict | E_CleanLearning | E_CleanLearning_fit
  | E_CleanLearning_get_label_issues | E_Series_argsort

datatype shown = Table frame | Object entry

datatype event =
  Call entry | Raised entry exn | Print "fitem list" | Display shown | Shell string
  | FileWrite "fitem list" | Assign string "nat list"

text \<open>
  The world of a run: the trace so far, the files the notebook has written (by path) and
  the hidden state of the libraries' random number generators, which the calls that were
  given no seed read and advance.
\<close>

record ('f, 'g) world =
  trace :: "event list"
  files :: "fitem list \<Rightarrow> 'f option"
  rng :: 'g

type_synonym ('a, 'f, 'g) nb = "('f, 'g) world \<Rightarrow> (exn + 'a) \<times> ('f, 'g) world"

definition ret :: "'a \<Rightarrow> ('a, 'f, 'g) nb" where
  "ret x w = (Inr x, w)"

definition emit :: "event \<Rightarrow> (unit, 'f, 'g) nb" where
  "emit ev w = (Inr (), w\<lparr>trace := trace w @ [ev]\<rparr>)"

text \<open>Statements in sequence: an exception in the first skips the rest of the run.\<close>

definition and_then :: "('a, 'f, 'g) nb \<Rightarrow> ('a \<Rightarrow> ('b, 'f, 'g) nb) \<Rightarrow> ('b, 'f, 'g) nb" where
  "and_then m f w = (case m w of (Inl e, w') \<Rightarrow> (Inl e, w') | (Inr x, w') \<Rightarrow> f x w')"

text \<open>An exception raised by the interpreter itself (division by zero, a missing name).\<close>

definition py_raise :: "exn \<Rightarrow> ('a, 'f, 'g) nb" where
  "py_raise e w = (Inl e, w\<lparr>trace := trace w @ [Raised E_interpreter e]\<rparr>)"

text \<open>A call of a library function whose result depends on its arguments only.\<close>

definition call :: "entry \<Rightarrow> exn + 'a \<Rightarrow> ('a, 'f, 'g) nb" where
  "call name r w =
     (case r of
        Inl e \<Rightarrow> (Inl e, w\<lparr>trace := trace w @ [Call name, Raised name e]\<rparr>)
      | Inr x \<Rightarrow> (Inr x, w\<lparr>trace := trace w @ [Call name]\<rparr>))"

text \<open>A call of a library function that draws on the libraries' random state.\<close>

definition call_rng :: "entry \<Rightarrow> ('g \<Rightarrow> (exn + 'a) \<times> 'g) \<Rightarrow> ('a, 'f, 'g) nb" where
  "call_rng name f w = (case f (rng w) of (r, g') \<Rightarrow> call name r (w\<lparr>rng := g'\<rparr>))"

definition py_print :: "fitem list \<Rightarrow> (unit, 'f, 'g) nb" where
  "py_print items = emit (Print items)"

definition display :: "shown \<Rightarrow> (unit, 'f, 'g) nb" where
  "display x = emit (Display x)"

text \<open>A \<open>!\<close> line: IPython runs the command and ignores its exit status.\<close>

definition shell :: "string \<Rightarrow> (unit, 'f, 'g) nb" where
  "shell cmd = emit (Shell cmd)"

definition write_file :: "fitem list \<Rightarrow> 'f \<Rightarrow> (unit, 'f, 'g) nb" where
  "write_file path content w =
     (Inr (), w\<lparr>trace := trace w @ [FileWrite path], files := (files w)(path \<mapsto> content)\<rparr>)"

text \<open>Python's \<open>a / b\<close> on numbers.\<close>

definition py_div :: "rat \<Rightarrow> rat \<Rightarrow> (rat, 'f, 'g) nb" where
  "py_div a b = (if b = 0 then py_raise ZeroDivisionError else ret (a / b))"

subsection \<open>The k-fold splitters of scikit-learn\<close>

text \<open>
  What \<open>StratifiedKFold(n_splits=k).split(X, y)\<close> does with \<open>n\<close> samples and labels \<open>y\<close>,
  whatever the shuffling.  It refuses labels of another length than the data, more splits
  than samples, and more splits than members of every class.  Otherwise every sample gets
  a fold number below \<open>k\<close> (here: the number that the library chose, taken modulo \<open>k\<close>), and
  the folds come in the order of their numbers: fold \<open>i\<close> holds out the samples numbered
  \<open>i\<close>, in increasing order, and trains on all the others.
\<close>

definition split_refused :: "nat \<Rightarrow> nat \<Rightarrow> 'a list \<Rightarrow> bool" where
  "split_refused k n y \<longleftrightarrow>
     length y \<noteq> n \<or> n < k \<or> list_all (\<lambda>c. count_list y c < k) (remdups y)"

definition folds_by_number :: "nat \<Rightarrow> nat \<Rightarrow> (nat \<Rightarrow> nat) \<Rightarrow> (nat list \<times> nat list) list" where
  "folds_by_number k n number =
     map (\<lambda>i. (filter (\<lambda>j. number j mod k \<noteq> i) [0..<n], filter (\<lambda>j. number j mod k = i) [0..<n]))
       [0..<k]"

section \<open>train_image_classifier.ipynb\<close>

subsection \<open>Preprocessing (cell 5)\<close>

text \<open>A PIL image: its mode string and its pixel data (opaque).\<close>

record 'px image =
  mode :: string
  pixels :: 'px

text \<open>
  The torchvision transforms and PIL's \<open>Image.convert\<close>, as the notebook receives them.
\<close>

record ('px, 't) vision_api =
  pil_convert :: "'px image \<Rightarrow> string \<Rightarrow> exn + 'px image"
  Resize :: "nat \<times> nat \<Rightarrow> 'px image \<Rightarrow> exn + 'px image"
  CenterCrop :: "nat \<Rightarrow> 'px image \<Rightarrow> exn + 'px image"
  ToTensor :: "'px image \<Rightarrow> exn + 't"
  Normalize :: "rat list \<Rightarrow> rat list \<Rightarrow> 't \<Rightarrow> exn + 't"

text \<open>
  \<^verbatim>\<open>
  def convert_to_rgb(img):
      if img.mode == 'L':
          img = img.convert('RGB')
      return img
  \<close>
\<close>

definition convert_to_rgb :: "('px, 't) vision_api \<Rightarrow> 'px image \<Rightarrow> exn + 'px image" where
  "convert_to_rgb api img =
     (if mode img = ''L'' then pil_convert api img ''RGB'' else Inr img)"

text \<open>
  The steps of \<open>transforms.Compose\<close> that follow \<open>transforms.Lambda(convert_to_rgb)\<close>:
  resize to 224 x 224, centre crop, conversion to a tensor and normalisation with the
  ImageNet statistics.
\<close>

definition tensor_steps :: "('px, 't) vision_api \<Rightarrow> 'px image \<Rightarrow> exn + 't" where
  "tensor_steps api img =
     pbind (Resize api (224, 224) img) (\<lambda>img1.
     pbind (CenterCrop api 224 img1) (\<lambda>img2.
     pbind (ToTensor api img2) (\<lambda>t.
     Normalize api [485 / 1000, 456 / 1000, 406 / 1000]
                   [229 / 1000, 224 / 1000, 225 / 1000] t)))"

definition transform :: "('px, 't) vision_api \<Rightarrow> 'px image \<Rightarrow> exn + 't" where
  "transform api img = pbind (convert_to_rgb api img) (tensor_steps api)"

subsection \<open>Dataset, hyperparameters and library entry points (cells 5, 7 and 9)\<close>

text \<open>
  What \<open>ImageFolder\<close> returns: the class names, the target of every sample, and the
  loading of sample \<open>i\<close> (reading the file and applying the transform, which happens when
  the sample is indexed).
\<close>

record 't dataset =
  classes :: "string list"
  targets :: "nat list"
  load_item :: "nat \<Rightarrow> exn + 't"

text \<open>\<open>dataset[i]\<close>: the transformed image and its target.\<close>

definition getitem :: "'t dataset \<Rightarrow> nat \<Rightarrow> exn + 't \<times> nat" where
  "getitem ds i =
     (if i < length (targets ds) then pbind (load_item ds i) (\<lambda>t. Inr (t, targets ds ! i))
      else Inl IndexError)"

text \<open>The samples of a batch, fetched in order; the first failure stops the batch.\<close>

fun fetch :: "'t dataset \<Rightarrow> nat list \<Rightarrow> exn + ('t \<times> nat) list" where
  "fetch ds [] = Inr []"
| "fetch ds (i # rest) =
     pbind (getitem ds i) (\<lambda>x. pbind (fetch ds rest) (\<lambda>xs. Inr (x # xs)))"

text \<open>\<open>torch.utils.data.Subset(dataset, idx)[p]\<close> is \<open>dataset[idx[p]]\<close>.\<close>

fun subset_indices :: "nat list \<Rightarrow> nat list \<Rightarrow> exn + nat list" where
  "subset_indices idx [] = Inr []"
| "subset_indices idx (p # ps) =
     (if p < length idx
      then pbind (subset_indices idx ps) (\<lambda>js. Inr (idx ! p # js))
      else Inl IndexError)"

text \<open>A \<open>DataLoader\<close> cuts the order of its sampler into batches of \<open>batch_size\<close>.\<close>

function chunks :: "nat \<Rightarrow> 'a list \<Rightarrow> 'a list list" where
  "chunks n xs = (if n = 0 \<or> xs = [] then [] else take n xs # chunks n (drop n xs))"
  by pat_completeness auto
termination
  by (relation "measure (\<lambda>(n, xs). length xs)") auto

declare chunks.simps [simp del]

text \<open>
  The arguments of \<open>StratifiedKFold(n_splits=..., shuffle=..., random_state=...)\<close>;
  \<open>random_state\<close> is \<open>None\<close> or an integer seed.
\<close>

record kfold =
  n_splits :: nat
  shuffle :: bool
  random_state :: "nat option"

definition batch_size :: nat where "batch_size = 32"
definition learning_rate :: rat where "learning_rate = 1 / 100000"
definition num_epochs :: nat where "num_epochs = 10"
definition num_folds :: nat where "num_folds = 5"
definition patience :: nat where "patience = 2"
definition model_name :: string where "model_name = ''swin_base_patch4_window7_224''"
definition model_prefix :: string where "model_prefix = ''caltech256_subset_'' @ model_name"
definition DATA_DIR :: string where "DATA_DIR = ''./data''"

text \<open>\<open>kf = StratifiedKFold(n_splits=num_folds, shuffle=True, random_state=42)\<close>\<close>

definition kf :: kfold where
  "kf = \<lparr>n_splits = num_folds, shuffle = True, random_state = Some 42\<rparr>"

text \<open>\<open>f'{model_prefix}_fold_{fold + 1}.pt'\<close>, where \<open>k\<close> is the number printed.\<close>

definition checkpoint_path :: "nat \<Rightarrow> fitem list" where
  "checkpoint_path k = [Txt model_prefix, Txt ''_fold_'', Num (of_nat k), Txt ''.pt'']"

definition features_path :: "fitem list" where
  "features_path = [Txt DATA_DIR, Txt ''/'', Txt ''features.npy'']"

definition pred_probs_path :: "fitem list" where
  "pred_probs_path = [Txt DATA_DIR, Txt ''/'', Txt ''pred_probs.npy'']"

text \<open>The files of this notebook: model checkpoints and two-dimensional arrays.\<close>

datatype 'sd stored = Checkpoint 'sd | Npy "rat list list"

text \<open>
  The entry points of torchvision, scikit-learn, timm and PyTorch.  \<open>'m\<close> is a model
  together with the optimizer built on its parameters, \<open>'sd\<close> a state dict, \<open>'t\<close> an
  input tensor, \<open>'g\<close> the state of a random number generator.  \<open>RandomState seed\<close> is the
  generator that scikit-learn builds from an integer seed; \<open>test_folds\<close> is the fold number
  that \<open>StratifiedKFold\<close> gives to every sample (stratified by the labels, and shuffled
  with the generator it is handed).  \<open>train_step\<close> is one pass of the body of the training
  loop over a batch (forward, loss, backward, Adam step with the given learning rate) and
  returns the loss; \<open>forward\<close> is \<open>model(inputs)\<close> in evaluation mode;
  \<open>eq_sum predicted targets\<close> is \<open>(predicted == targets).sum().item()\<close>.
\<close>

record ('px, 't, 'm, 'sd, 'g) torch_api =
  ImageFolder :: "string \<Rightarrow> ('px image \<Rightarrow> exn + 't) \<Rightarrow> exn + 't dataset"
  RandomState :: "nat \<Rightarrow> 'g"
  test_folds :: "kfold \<Rightarrow> nat list \<Rightarrow> 'g \<Rightarrow> (exn + (nat \<Rightarrow> nat)) \<times> 'g"
  create_model :: "string \<Rightarrow> bool \<Rightarrow> nat \<Rightarrow> 'g \<Rightarrow> (exn + 'm) \<times> 'g"
  num_features :: "'m \<Rightarrow> nat"
  RandomSampler :: "nat \<Rightarrow> 'g \<Rightarrow> nat list \<times> 'g"
  train_step :: "'m \<Rightarrow> rat \<Rightarrow> ('t \<times> nat) list \<Rightarrow> 'g \<Rightarrow> (exn + 'm \<times> rat) \<times> 'g"
  forward :: "'m \<Rightarrow> 't list \<Rightarrow> exn + rat list list"
  torch_max :: "rat list list \<Rightarrow> exn + nat list"
  eq_sum :: "nat list \<Rightarrow> nat list \<Rightarrow> exn + nat"
  softmax :: "rat list list \<Rightarrow> exn + rat list list"
  state_dict :: "'m \<Rightarrow> 'sd"
  load_state_dict :: "'m \<Rightarrow> 'sd \<Rightarrow> exn + 'm"
  reset_classifier :: "'m \<Rightarrow> nat \<Rightarrow> exn + 'm"

text \<open>
  \<open>StratifiedKFold(...).split(X, y)\<close> for \<open>n\<close> samples with labels \<open>y\<close>, run with the
  generator \<open>g\<close>: the fold numbers are those that \<open>test_folds\<close> draws.
\<close>

definition StratifiedKFold_split ::
  "('px, 't, 'm, 'sd, 'g) torch_api \<Rightarrow> kfold \<Rightarrow> nat \<Rightarrow> nat list \<Rightarrow> 'g \<Rightarrow>
   (exn + (nat list \<times> nat list) list) \<times> 'g" where
  "StratifiedKFold_split api k n y g =
     (if split_refused (n_splits k) n y then (Inl ValueError, g)
      else case test_folds api k y g of
             (Inl e, g') \<Rightarrow> (Inl e, g')
           | (Inr number, g') \<Rightarrow> (Inr (folds_by_number (n_splits k) n number), g'))"

text \<open>
  \<open>k.split(X, y)\<close> inside a notebook: with an integer \<open>random_state\<close> every call builds its
  own generator from the seed; with \<open>random_state=None\<close> the call draws on the global
  generator and advances it.
\<close>

definition seeded_split ::
  "('px, 't, 'm, 'sd, 'g) torch_api \<Rightarrow> kfold \<Rightarrow> nat \<Rightarrow> nat \<Rightarrow> nat list \<Rightarrow>
   exn + (nat list \<times> nat list) list" where
  "seeded_split api k seed n y = fst (StratifiedKFold_split api k n y (RandomState api seed))"

definition kf_split ::
  "('px, 't, 'm, 'sd, 'g) torch_api \<Rightarrow> kfold \<Rightarrow> nat \<Rightarrow> nat list \<Rightarrow>
   ((nat list \<times> nat list) list, 'f, 'g) nb" where
  "kf_split api k n y =
     (case random_state k of
        Some seed \<Rightarrow> call E_StratifiedKFold_split (seeded_split api k seed n y)
      | None \<Rightarrow> call_rng E_StratifiedKFold_split (StratifiedKFold_split api k n y))"

text \<open>
  \<open>DataLoader(subset, batch_size=batch_size, shuffle=...)\<close> for a subset of \<open>n\<close> samples:
  with \<open>shuffle=True\<close> the loader builds a \<open>RandomSampler\<close>, which refuses an empty data
  source.
\<close>

definition DataLoader :: "nat \<Rightarrow> bool \<Rightarrow> exn + unit" where
  "DataLoader n shuffled = (if shuffled \<and> n = 0 then Inl ValueError else Inr ())"

definition torch_save :: "'sd \<Rightarrow> fitem list \<Rightarrow> (unit, 'sd stored, 'g) nb" where
  "torch_save sd path = and_then (emit (Call E_torch_save)) (\<lambda>_. write_file path (Checkpoint sd))"

definition torch_load :: "fitem list \<Rightarrow> ('sd, 'sd stored, 'g) nb" where
  "torch_load path w =
     call E_torch_load
       (case files w path of
          None \<Rightarrow> Inl FileNotFoundError
        | Some (Checkpoint sd) \<Rightarrow> Inr sd
        | Some (Npy a) \<Rightarrow> Inl (LibraryError ''UnpicklingError'')) w"

definition np_save :: "fitem list \<Rightarrow> rat list list \<Rightarrow> (unit, 'sd stored, 'g) nb" where
  "np_save path a = and_then (emit (Call E_np_save)) (\<lambda>_. write_file path (Npy a))"

subsection \<open>numpy arrays\<close>

text \<open>
  A two-dimensional array is the list of its rows.  \<open>np_setitem c a idx vals\<close> is
  \<open>a[idx] = vals\<close> for an array \<open>a\<close> of \<open>c\<close> columns and an index array \<open>idx\<close>.  numpy
  first broadcasts \<open>vals\<close> to the shape \<open>(len(idx), c)\<close>: a single row stands for every
  row and a single column for every column, and any other shape raises \<open>ValueError\<close>.
  Then row \<open>idx[j]\<close> becomes row \<open>j\<close> of the broadcast value, in the order of \<open>idx\<close>; an index
  beyond the array raises \<open>IndexError\<close>.
\<close>

definition np_zeros :: "nat \<Rightarrow> nat \<Rightarrow> rat list list" where
  "np_zeros n c = replicate n (replicate c 0)"

definition np_concatenate :: "rat list list list \<Rightarrow> exn + rat list list" where
  "np_concatenate parts =
     (if parts = [] then Inl ValueError
      else if list_all (\<lambda>r. length r = length (hd (concat parts))) (concat parts)
      then Inr (concat parts)
      else Inl ValueError)"

definition widen :: "nat \<Rightarrow> rat list \<Rightarrow> rat list" where
  "widen c r = (if length r = c then r else replicate c (r ! 0))"

definition np_broadcast :: "nat \<Rightarrow> nat \<Rightarrow> rat list list \<Rightarrow> exn + rat list list" where
  "np_broadcast k c vals =
     (if (length vals = k \<or> length vals = 1) \<and> list_all (\<lambda>r. length r = c \<or> length r = 1) vals
      then Inr (map (\<lambda>j. widen c (vals ! (if length vals = k then j else 0))) [0..<k])
      else Inl ValueError)"

definition np_setitem :: "nat \<Rightarrow> rat list list \<Rightarrow> nat list \<Rightarrow> rat list list \<Rightarrow> exn + rat list list" where
  "np_setitem c a idx vals =
     pbind (np_broadcast (length idx) c vals) (\<lambda>rows.
       if list_ex (\<lambda>i. length a \<le> i) idx then Inl IndexError
       else Inr (fold (\<lambda>(i, v) b. b[i := v]) (zip idx rows) a))"

text \<open>The statement \<open>name[idx] = vals\<close> of a notebook, for the array variable \<open>name\<close>.\<close>

definition ndarray_setitem ::
  "string \<Rightarrow> nat \<Rightarrow> rat list list \<Rightarrow> nat list \<Rightarrow> rat list list \<Rightarrow> (rat list list, 'f, 'g) nb" where
  "ndarray_setitem name c a idx vals =
     and_then (call E_ndarray_setitem (np_setitem c a idx vals)) (\<lambda>a'.
     and_then (emit (Assign name idx)) (\<lambda>_. ret a'))"

subsection \<open>Setup (cells 4 and 5)\<close>

text \<open>
  The three \<open>!\<close> lines; \<open>CHR 0x27\<close> is the quote that closes the URL of the first.
\<close>

definition cell_4 :: "(unit, 'f, 'g) nb" where
  "cell_4 =
     and_then (shell (''wget -nc 'https://cleanlab-public.s3.amazonaws.com/Datalab/caltech256-subset.tar.gz'' @ [CHR 0x27])) (\<lambda>_.
     and_then (shell ''mkdir -p data'') (\<lambda>_.
     shell ''tar -xf caltech256-subset.tar.gz -C data/''))"

definition cell_5 ::
  "('px, 't) vision_api \<Rightarrow> ('px, 't, 'm, 'sd, 'g) torch_api \<Rightarrow> ('t dataset, 'f, 'g) nb" where
  "cell_5 vapi api =
     call E_ImageFolder (ImageFolder api (DATA_DIR @ ''/caltech256-subset'') (transform vapi))"

subsection \<open>K-fold training (cell 10)\<close>

text \<open>
  The body of \<open>for inputs, targets in tqdm(train_loader)\<close>.  The loader was built with
  \<open>shuffle=True\<close>: its batches are positions into the training subset, in the order the
  sampler drew.  \<open>loss\<close> is the Python variable of that name (\<open>None\<close> while it is unbound).
\<close>

fun train_batches ::
  "('px, 't, 'm, 'sd, 'g) torch_api \<Rightarrow> 't dataset \<Rightarrow> nat list \<Rightarrow> 'm \<Rightarrow> rat option \<Rightarrow>
   nat list list \<Rightarrow> ('m \<times> rat option, 'f, 'g) nb" where
  "train_batches api ds train_idx m loss [] = ret (m, loss)"
| "train_batches api ds train_idx m loss (ps # rest) =
     and_then (call E_Subset_getitem (pbind (subset_indices train_idx ps) (fetch ds))) (\<lambda>batch.
     and_then (call_rng E_optimizer_step (train_step api m learning_rate batch)) (\<lambda>(m', l).
     train_batches api ds train_idx m' (Some l) rest))"

text \<open>
  The body of \<open>for inputs, targets in tqdm(val_loader)\<close>; the loader was built with
  \<open>shuffle=False\<close>, so its batches are the held-out indices in order.
\<close>

fun evaluate_batches ::
  "('px, 't, 'm, 'sd, 'g) torch_api \<Rightarrow> 't dataset \<Rightarrow> 'm \<Rightarrow> nat \<Rightarrow> nat \<Rightarrow>
   nat list list \<Rightarrow> (nat \<times> nat, 'f, 'g) nb" where
  "evaluate_batches api ds m correct total' [] = ret (correct, total')"
| "evaluate_batches api ds m correct total' (c # rest) =
     and_then (call E_Subset_getitem (fetch ds c)) (\<lambda>batch.
     and_then (call E_model_call (forward api m (map fst batch))) (\<lambda>outputs.
     and_then (call E_torch_max (torch_max api outputs)) (\<lambda>predicted.
     and_then (call E_Tensor_sum (eq_sum api predicted (map snd batch))) (\<lambda>k.
     evaluate_batches api ds m (correct + k) (total' + length batch) rest))))"

text \<open>
  \<open>for epoch in range(num_epochs)\<close> for one fold, with the checkpoint of the best
  validation accuracy so far and the early stop.  The result is the variable \<open>loss\<close>.
\<close>

fun epochs_loop ::
  "('px, 't, 'm, 'sd, 'g) torch_api \<Rightarrow> 't dataset \<Rightarrow> nat \<Rightarrow> nat list \<Rightarrow> nat list \<Rightarrow> 'm \<Rightarrow>
   rat \<Rightarrow> nat \<Rightarrow> rat option \<Rightarrow> nat list \<Rightarrow> (rat option, 'sd stored, 'g) nb" where
  "epochs_loop api ds fold' train_idx test_idx m best_val_accuracy best_epoch loss [] = ret loss"
| "epochs_loop api ds fold' train_idx test_idx m best_val_accuracy best_epoch loss (epoch # rest) =
     and_then (py_print [Txt ''Epoch '', Num (of_nat (epoch + 1)), Txt ''/'', Num (of_nat num_epochs)]) (\<lambda>_.
     and_then (call_rng E_DataLoader_iter
                 (\<lambda>g. case RandomSampler api (length train_idx) g of (order, g') \<Rightarrow> (Inr order, g'))) (\<lambda>order.
     and_then (train_batches api ds train_idx m loss (chunks batch_size order)) (\<lambda>(m1, loss1).
     and_then (case loss1 of None \<Rightarrow> py_raise NameError
               | Some l \<Rightarrow> py_print [Txt ''Train loss: '', Fixed 4 l]) (\<lambda>_.
     and_then (evaluate_batches api ds m1 0 0 (chunks batch_size test_idx)) (\<lambda>(correct, total').
     and_then (py_div (100 * of_nat correct) (of_nat total')) (\<lambda>val_accuracy.
     and_then (py_print [Txt ''Validation accuracy: '', Fixed 2 val_accuracy, Txt ''%'']) (\<lambda>_.
     and_then (if val_accuracy > best_val_accuracy
               then and_then (py_print [Txt ''Saving model...'']) (\<lambda>_.
                    and_then (torch_save (state_dict api m1) (checkpoint_path (fold' + 1))) (\<lambda>_.
                    ret (val_accuracy, epoch)))
               else ret (best_val_accuracy, best_epoch)) (\<lambda>(best_val_accuracy1, best_epoch1).
     if epoch - best_epoch1 > patience
     then and_then (py_print [Txt ''Early stopping at epoch '', Num (of_nat (epoch + 1))]) (\<lambda>_. ret loss1)
     else epochs_loop api ds fold' train_idx test_idx m1 best_val_accuracy1 best_epoch1 loss1 rest))))))))"

text \<open>\<open>for fold, (train_idx, test_idx) in enumerate(kf.split(dataset, labels))\<close>\<close>

fun folds_loop ::
  "('px, 't, 'm, 'sd, 'g) torch_api \<Rightarrow> 't dataset \<Rightarrow> nat \<Rightarrow> rat option \<Rightarrow>
   (nat \<times> nat list \<times> nat list) list \<Rightarrow> (rat option, 'sd stored, 'g) nb" where
  "folds_loop api ds n_classes loss [] = ret loss"
| "folds_loop api ds n_classes loss ((fold', train_idx, test_idx) # rest) =
     and_then (py_print [Txt ''Fold '', Num (of_nat (fold' + 1)), Txt ''/'', Num (of_nat num_folds)]) (\<lambda>_.
     and_then (py_print [Txt ''----------'']) (\<lambda>_.
     and_then (py_print [Txt ''Train set size: '', Num (of_nat (length train_idx))]) (\<lambda>_.
     and_then (py_print [Txt ''Test set size: '', Num (of_nat (length test_idx))]) (\<lambda>_.
     and_then (call E_DataLoader (DataLoader (length train_idx) True)) (\<lambda>_.
     and_then (call E_DataLoader (DataLoader (length test_idx) False)) (\<lambda>_.
     and_then (call_rng E_timm_create_model (create_model api model_name True n_classes)) (\<lambda>m.
     and_then (epochs_loop api ds fold' train_idx test_idx m 0 0 loss [0..<num_epochs]) (\<lambda>loss1.
     folds_loop api ds n_classes loss1 rest))))))))"

definition cell_10 ::
  "('px, 't, 'm, 'sd, 'g) torch_api \<Rightarrow> 't dataset \<Rightarrow> nat list \<Rightarrow> nat \<Rightarrow> (rat option, 'sd stored, 'g) nb" where
  "cell_10 api ds labels n_classes =
     and_then (kf_split api kf (length (targets ds)) labels) (\<lambda>folds.
     folds_loop api ds n_classes None (enumerate 0 folds))"

subsection \<open>Predicted probabilities and features (cell 12)\<close>

text \<open>
  \<open>model = timm.create_model(...); model.load_state_dict(torch.load(path))\<close> for the
  checkpoint numbered \<open>k\<close>.
\<close>

definition load_checkpoint ::
  "('px, 't, 'm, 'sd, 'g) torch_api \<Rightarrow> nat \<Rightarrow> nat \<Rightarrow> ('m, 'sd stored, 'g) nb" where
  "load_checkpoint api n_classes k =
     and_then (call_rng E_timm_create_model (create_model api model_name True n_classes)) (\<lambda>m0.
     and_then (torch_load (checkpoint_path k)) (\<lambda>sd.
     call E_load_state_dict (load_state_dict api m0 sd)))"

fun pred_probs_batches ::
  "('px, 't, 'm, 'sd, 'g) torch_api \<Rightarrow> 't dataset \<Rightarrow> 'm \<Rightarrow> rat list list list \<Rightarrow>
   nat list list \<Rightarrow> (rat list list list, 'f, 'g) nb" where
  "pred_probs_batches api ds m pred_probs_fold [] = ret pred_probs_fold"
| "pred_probs_batches api ds m pred_probs_fold (c # rest) =
     and_then (call E_Subset_getitem (fetch ds c)) (\<lambda>batch.
     and_then (call E_model_call (forward api m (map fst batch))) (\<lambda>outputs.
     and_then (call E_softmax (softmax api outputs)) (\<lambda>probs.
     pred_probs_batches api ds m (pred_probs_fold @ [probs]) rest)))"

fun features_batches ::
  "('px, 't, 'm, 'sd, 'g) torch_api \<Rightarrow> 't dataset \<Rightarrow> 'm \<Rightarrow> rat list list list \<Rightarrow>
   nat list list \<Rightarrow> (rat list list list, 'f, 'g) nb" where
  "features_batches api ds m features_fold [] = ret features_fold"
| "features_batches api ds m features_fold (c # rest) =
     and_then (call E_Subset_getitem (fetch ds c)) (\<lambda>batch.
     and_then (call E_model_call (forward api m (map fst batch))) (\<lambda>outputs.
     features_batches api ds m (features_fold @ [outputs]) rest))"

text \<open>\<open>for fold, (_, test_idx) in enumerate(kf.split(dataset, labels))\<close>\<close>

fun predict_folds ::
  "('px, 't, 'm, 'sd, 'g) torch_api \<Rightarrow> 't dataset \<Rightarrow> nat \<Rightarrow> nat \<Rightarrow> rat list list \<Rightarrow> rat list list \<Rightarrow>
   (nat \<times> nat list \<times> nat list) list \<Rightarrow> (rat list list \<times> rat list list, 'sd stored, 'g) nb" where
  "predict_folds api ds n_classes n_features features pred_probs [] = ret (features, pred_probs)"
| "predict_folds api ds n_classes n_features features pred_probs ((fold', train_idx, test_idx) # rest) =
     and_then (call E_DataLoader (DataLoader (length test_idx) False)) (\<lambda>_.
     and_then (load_checkpoint api n_classes (fold' + 1)) (\<lambda>m.
     and_then (pred_probs_batches api ds m [] (chunks batch_size test_idx)) (\<lambda>pred_probs_fold.
     and_then (call E_np_concatenate (np_concatenate pred_probs_fold)) (\<lambda>vals.
     and_then (ndarray_setitem ''pred_probs'' n_classes pred_probs test_idx vals) (\<lambda>pred_probs1.
     and_then (load_checkpoint api n_classes 1) (\<lambda>m1.
     and_then (call E_reset_classifier (reset_classifier api m1 0)) (\<lambda>m2.
     and_then (features_batches api ds m2 [] (chunks batch_size test_idx)) (\<lambda>features_fold.
     and_then (call E_np_concatenate (np_concatenate features_fold)) (\<lambda>fvals.
     and_then (ndarray_setitem ''features'' n_features features test_idx fvals) (\<lambda>features1.
     predict_folds api ds n_classes n_features features1 pred_probs1 rest))))))))))"

definition cell_12 ::
  "('px, 't, 'm, 'sd, 'g) torch_api \<Rightarrow> 't dataset \<Rightarrow> nat list \<Rightarrow> nat \<Rightarrow>
   (rat list list \<times> rat list list, 'sd stored, 'g) nb" where
  "cell_12 api ds labels n_classes =
     and_then (load_checkpoint api n_classes 1) (\<lambda>m.
     and_then (kf_split api kf (length (targets ds)) labels) (\<lambda>folds.
     and_then (predict_folds api ds n_classes (num_features api m)
                 (np_zeros (length (targets ds)) (num_features api m))
                 (np_zeros (length (targets ds)) n_classes) (enumerate 0 folds)) (\<lambda>(features, pred_probs).
     and_then (np_save features_path features) (\<lambda>_.
     and_then (np_save pred_probs_path pred_probs) (\<lambda>_.
     ret (features, pred_probs))))))"

text \<open>The whole notebook, run from top to bottom.\<close>

definition train_image_classifier ::
  "('px, 't) vision_api \<Rightarrow> ('px, 't, 'm, 'sd, 'g) torch_api \<Rightarrow>
   (rat list list \<times> rat list list, 'sd stored, 'g) nb" where
  "train_image_classifier vapi api =
     and_then cell_4 (\<lambda>_.
     and_then (cell_5 vapi api) (\<lambda>ds.
     and_then (cell_10 api ds (targets ds) (length (classes ds))) (\<lambda>_.
     cell_12 api ds (targets ds) (length (classes ds)))))"

section \<open>pandas\<close>

text \<open>
  The \<open>DataFrame\<close> operations the notebooks use, with the exceptions pandas raises.
\<close>

definition column_names :: "frame \<Rightarrow> string list" where
  "column_names df = map fst (cols df)"

text \<open>\<open>df[c]\<close>, also written \<open>df.c\<close>.\<close>

definition df_getitem :: "frame \<Rightarrow> string \<Rightarrow> exn + cell list" where
  "df_getitem df c = (case map_of (cols df) c of None \<Rightarrow> Inl KeyError | Some v \<Rightarrow> Inr v)"

text \<open>\<open>df[c] = v\<close>: replaces the column, or appends it when the name is new.\<close>

definition df_setitem :: "frame \<Rightarrow> string \<Rightarrow> cell list \<Rightarrow> exn + frame" where
  "df_setitem df c v =
     (if length v \<noteq> length (index df) then Inl ValueError
      else if c \<in> set (column_names df)
      then Inr (df\<lparr>cols := map (\<lambda>(k, old). if k = c then (k, v) else (k, old)) (cols df)\<rparr>)
      else Inr (df\<lparr>cols := cols df @ [(c, v)]\<rparr>))"

text \<open>\<open>df.drop(cs, axis=1)\<close>\<close>

definition df_drop_columns :: "frame \<Rightarrow> string list \<Rightarrow> exn + frame" where
  "df_drop_columns df cs =
     (if list_all (\<lambda>c. c \<in> set (column_names df)) cs
      then Inr (df\<lparr>cols := filter (\<lambda>(k, v). k \<notin> set cs) (cols df)\<rparr>)
      else Inl KeyError)"

text \<open>\<open>df[[c1, c2, ...]]\<close>: the named columns, in the order asked for.\<close>

fun df_select :: "frame \<Rightarrow> string list \<Rightarrow> exn + (string \<times> cell list) list" where
  "df_select df [] = Inr []"
| "df_select df (c # cs) =
     pbind (df_getitem df c) (\<lambda>v. pbind (df_select df cs) (\<lambda>rest. Inr ((c, v) # rest)))"

definition df_getitem_list :: "frame \<Rightarrow> string list \<Rightarrow> exn + frame" where
  "df_getitem_list df cs = pbind (df_select df cs) (\<lambda>kvs. Inr (df\<lparr>cols := kvs\<rparr>))"

text \<open>The rows at the given positions, in that order (no bounds check).\<close>

definition take_rows :: "frame \<Rightarrow> nat list \<Rightarrow> frame" where
  "take_rows df ps =
     \<lparr>index = map (\<lambda>p. index df ! p) ps,
      cols = map (\<lambda>(k, v). (k, map (\<lambda>p. v ! p) ps)) (cols df)\<rparr>"

text \<open>\<open>df.iloc[ps]\<close>\<close>

definition df_iloc :: "frame \<Rightarrow> nat list \<Rightarrow> exn + frame" where
  "df_iloc df ps =
     (if list_all (\<lambda>p. p < length (index df)) ps then Inr (take_rows df ps) else Inl IndexError)"

text \<open>\<open>df.reset_index(drop=True, inplace=True)\<close>\<close>

definition df_reset_index :: "frame \<Rightarrow> frame" where
  "df_reset_index df = df\<lparr>index := [0..<length (index df)]\<rparr>"

text \<open>The positions of the rows whose label is not among \<open>labels\<close>.\<close>

definition kept_positions :: "frame \<Rightarrow> nat list \<Rightarrow> nat list" where
  "kept_positions df labels = filter (\<lambda>p. index df ! p \<notin> set labels) [0..<length (index df)]"

text \<open>\<open>df.drop(labels)\<close>: drops the rows with these labels; a label that is not there raises.\<close>

definition df_drop_rows :: "frame \<Rightarrow> nat list \<Rightarrow> exn + frame" where
  "df_drop_rows df labels =
     (if list_all (\<lambda>l. l \<in> set (index df)) labels
      then Inr (take_rows df (kept_positions df labels))
      else Inl KeyError)"

text \<open>\<open>df[mask]\<close> for a boolean mask.\<close>

definition df_mask :: "frame \<Rightarrow> bool list \<Rightarrow> exn + frame" where
  "df_mask df mask' =
     (if length mask' = length (index df)
      then Inr (take_rows df (filter (\<lambda>p. mask' ! p) [0..<length (index df)]))
      else Inl ValueError)"

text \<open>\<open>series.isin(values)\<close>\<close>

definition isin :: "cell list \<Rightarrow> cell list \<Rightarrow> bool list" where
  "isin series vals = map (\<lambda>x. x \<in> set vals) series"

text \<open>\<open>xs.index(e)\<close> of a Python list: the first position of \<open>e\<close>.\<close>

fun list_index :: "'a list \<Rightarrow> 'a \<Rightarrow> exn + nat" where
  "list_index [] e = Inl ValueError"
| "list_index (x # xs) e = (if x = e then Inr 0 else pbind (list_index xs e) (\<lambda>k. Inr (Suc k)))"

fun map_index :: "'a list \<Rightarrow> 'a list \<Rightarrow> exn + nat list" where
  "map_index xs [] = Inr []"
| "map_index xs (e # es) =
     pbind (list_index xs e) (\<lambda>k. pbind (map_index xs es) (\<lambda>ks. Inr (k # ks)))"

text \<open>
  \<open>df.sort_values(by=c, key=lambda column: column.map(lambda e: order.index(e)))\<close>: the
  rows in the order in which their value in column \<open>c\<close> occurs in \<open>order\<close>.
\<close>

definition df_sort_by_position :: "frame \<Rightarrow> string \<Rightarrow> cell list \<Rightarrow> exn + frame" where
  "df_sort_by_position df c order =
     pbind (df_getitem df c) (\<lambda>v.
     pbind (map_index order v) (\<lambda>ks.
     Inr (take_rows df (sort_key (\<lambda>p. ks ! p) [0..<length (index df)]))))"

text \<open>\<open>df.head()\<close>: the first five rows.\<close>

definition df_head :: "frame \<Rightarrow> frame" where
  "df_head df = take_rows df [0..<min 5 (length (index df))]"

section \<open>find_tabular_errors.ipynb\<close>

text \<open>
  \<open>XGBClassifier(tree_method="hist", enable_categorical=True)\<close>, the only way in which the
  notebook constructs a classifier.
\<close>

record xgb_params =
  tree_method :: string
  enable_categorical :: bool

definition XGBClassifier :: xgb_params where
  "XGBClassifier = \<lparr>tree_method = ''hist'', enable_categorical = True\<rparr>"

text \<open>
  The entry points of pandas, scikit-learn, XGBoost and cleanlab.  \<open>'m\<close> is a fitted
  classifier.  \<open>split_positions random_state n\<close> stands for the shuffle inside
  \<open>train_test_split(df, random_state=...)\<close>: with no \<open>stratify\<close> argument, scikit-learn
  draws the positions of the training and of the test rows from the seed and the number
  of rows alone.  \<open>fit params X y\<close> is \<open>XGBClassifier(**params).fit(X, y)\<close>, \<open>predict\<close> and
  \<open>predict_proba\<close> are the methods of the fitted classifier, and \<open>cv_numbers y\<close> are the
  fold numbers that the default splitter of \<open>cross_val_predict\<close>, a \<open>StratifiedKFold\<close> of
  five folds without shuffling, gives to the samples with labels \<open>y\<close>.
\<close>

record 'm tabular_api =
  read_csv :: "string \<Rightarrow> exn + frame"
  LabelEncoder_fit_transform :: "cell list \<Rightarrow> exn + cell list"
  astype :: "cell list \<Rightarrow> string \<Rightarrow> exn + cell list"
  split_positions :: "nat \<Rightarrow> nat \<Rightarrow> exn + nat list \<times> nat list"
  fit :: "xgb_params \<Rightarrow> frame \<Rightarrow> cell list \<Rightarrow> exn + 'm"
  predict :: "'m \<Rightarrow> frame \<Rightarrow> exn + cell list"
  accuracy_score :: "cell list \<Rightarrow> cell list \<Rightarrow> exn + rat"
  predict_proba :: "'m \<Rightarrow> frame \<Rightarrow> exn + rat list list"
  cv_numbers :: "cell list \<Rightarrow> nat \<Rightarrow> nat"
  find_label_issues :: "cell list \<Rightarrow> rat list list \<Rightarrow> string \<Rightarrow> exn + nat list"

text \<open>
  \<open>cross_val_predict(XGBClassifier(**params), X, y, method='predict_proba')\<close>.  For every
  fold of the splitter, scikit-learn fits a fresh classifier on the training rows of the
  fold and lets it predict the held-out rows; then it puts the predictions of all folds
  one after the other and brings them back into the order of the rows of \<open>X\<close>
  (\<open>row_position\<close> is where a row stands among the held-out rows of all folds).  A
  classifier that predicts another number of rows than it is given does not occur; it
  raises here.
\<close>

definition fit_and_predict ::
  "'m tabular_api \<Rightarrow> xgb_params \<Rightarrow> frame \<Rightarrow> cell list \<Rightarrow> nat list \<times> nat list \<Rightarrow> exn + rat list list" where
  "fit_and_predict api params X y fold' =
     pbind (fit api params (take_rows X (fst fold')) (map (\<lambda>p. y ! p) (fst fold'))) (\<lambda>m.
     pbind (predict_proba api m (take_rows X (snd fold'))) (\<lambda>rows.
     if length rows = length (snd fold') then Inr rows else Inl ValueError))"

fun each_fold :: "('a \<Rightarrow> exn + 'b) \<Rightarrow> 'a list \<Rightarrow> exn + 'b list" where
  "each_fold f [] = Inr []"
| "each_fold f (x # xs) = pbind (f x) (\<lambda>r. pbind (each_fold f xs) (\<lambda>rs. Inr (r # rs)))"

definition row_position :: "nat list \<Rightarrow> nat \<Rightarrow> nat" where
  "row_position held_out j = length (takeWhile (\<lambda>x. x \<noteq> j) held_out)"

definition cross_val_predict ::
  "'m tabular_api \<Rightarrow> xgb_params \<Rightarrow> frame \<Rightarrow> cell list \<Rightarrow> exn + rat list list" where
  "cross_val_predict api params X y =
     (if split_refused 5 (length (index X)) y then Inl ValueError
      else pbind (each_fold (fit_and_predict api params X y)
                    (folds_by_number 5 (length (index X)) (cv_numbers api y))) (\<lambda>predictions.
           pbind (np_concatenate predictions) (\<lambda>rows.
           Inr (map (\<lambda>j. rows ! row_position
                               (concat (map snd (folds_by_number 5 (length (index X)) (cv_numbers api y)))) j)
                  [0..<length (index X)]))))"

text \<open>\<open>df[c] = preprocessing.LabelEncoder().fit_transform(df[c])\<close>\<close>

definition encode_column :: "'m tabular_api \<Rightarrow> frame \<Rightarrow> string \<Rightarrow> (frame, 'f, 'g) nb" where
  "encode_column api df c =
     and_then (call E_DataFrame_getitem (df_getitem df c)) (\<lambda>v.
     and_then (call E_LabelEncoder_fit_transform (LabelEncoder_fit_transform api v)) (\<lambda>codes.
     call E_DataFrame_setitem (df_setitem df c codes)))"

text \<open>\<open>df[c] = df[c].astype('category')\<close>\<close>

definition categorical_column :: "'m tabular_api \<Rightarrow> frame \<Rightarrow> string \<Rightarrow> (frame, 'f, 'g) nb" where
  "categorical_column api df c =
     and_then (call E_DataFrame_getitem (df_getitem df c)) (\<lambda>v.
     and_then (call E_astype (astype api v ''category'')) (\<lambda>cats.
     call E_DataFrame_setitem (df_setitem df c cats)))"

text \<open>\<open>train_test_split(df, random_state=rs)\<close>\<close>

definition train_test_split :: "'m tabular_api \<Rightarrow> frame \<Rightarrow> nat \<Rightarrow> exn + frame \<times> frame" where
  "train_test_split api df rs =
     pbind (split_positions api rs (length (index df))) (\<lambda>(train_pos, test_pos).
     pbind (df_iloc df train_pos) (\<lambda>df_train.
     pbind (df_iloc df test_pos) (\<lambda>df_test. Inr (df_train, df_test))))"

definition id_and_label_columns :: "string list" where
  "id_and_label_columns = [''stud_ID'', ''letter_grade'', ''noisy_letter_grade'']"

text \<open>The variables that cell 4 leaves in the kernel.\<close>

record setup_vars =
  df_c :: frame
  df_train :: frame
  df_test :: frame
  test_data :: frame
  test_labels :: "cell list"

definition tabular_cell_4 :: "'m tabular_api \<Rightarrow> (setup_vars, 'f, 'g) nb" where
  "tabular_cell_4 api =
     and_then (shell ''pip install cleanlab==2.2'') (\<lambda>_.
     and_then (shell ''pip install xgboost==1.7'') (\<lambda>_.
     and_then (call E_pd_read_csv (read_csv api ''https://s.cleanlab.ai/student-grades-demo.csv'')) (\<lambda>df.
     and_then (encode_column api df ''letter_grade'') (\<lambda>df1.
     and_then (encode_column api df1 ''noisy_letter_grade'') (\<lambda>df2.
     and_then (encode_column api df2 ''notes'') (\<lambda>df3.
     and_then (categorical_column api df3 ''notes'') (\<lambda>df4.
     and_then (call E_train_test_split (train_test_split api df4 0)) (\<lambda>(df_train0, df_test0).
     and_then (call E_DataFrame_drop
                 (df_drop_columns (df_reset_index df_test0) id_and_label_columns)) (\<lambda>test_data'.
     and_then (call E_DataFrame_getitem
                 (df_getitem (df_reset_index df_test0) ''letter_grade'')) (\<lambda>test_labels'.
     ret \<lparr>df_c = df, df_train = df_reset_index df_train0, df_test = df_reset_index df_test0,
          test_data = test_data', test_labels = test_labels'\<rparr>))))))))))"

text \<open>Cell 6: the baseline classifier, trained on the noisy labels.\<close>

record 'm baseline_vars =
  train_data :: frame
  train_labels :: "cell list"
  model_original :: 'm
  preds_original :: "cell list"
  acc_original :: rat

definition tabular_cell_6 :: "'m tabular_api \<Rightarrow> setup_vars \<Rightarrow> ('m baseline_vars, 'f, 'g) nb" where
  "tabular_cell_6 api v =
     and_then (call E_DataFrame_drop (df_drop_columns (df_train v) id_and_label_columns)) (\<lambda>train_data'.
     and_then (call E_DataFrame_getitem (df_getitem (df_train v) ''noisy_letter_grade'')) (\<lambda>train_labels'.
     and_then (call E_XGBClassifier_fit (fit api XGBClassifier train_data' train_labels')) (\<lambda>model.
     and_then (call E_XGBClassifier_predict (predict api model (test_data v))) (\<lambda>preds.
     and_then (call E_accuracy_score (accuracy_score api preds (test_labels v))) (\<lambda>acc.
     and_then (py_print [Txt ''Accuracy with original data: '', Rounded 1 (acc * 100), Txt ''%'']) (\<lambda>_.
     ret \<lparr>train_data = train_data', train_labels = train_labels', model_original = model,
          preds_original = preds, acc_original = acc\<rparr>))))))"

text \<open>Cell 9: out-of-sample predicted probabilities, the label issues, and the table shown.\<close>

record issue_vars =
  pred_probs :: "rat list list"
  issue_idx :: "nat list"
  issues_df :: frame

definition tabular_cell_9 ::
  "'m tabular_api \<Rightarrow> setup_vars \<Rightarrow> 'm baseline_vars \<Rightarrow> (issue_vars, 'f, 'g) nb" where
  "tabular_cell_9 api v b =
     and_then (call E_cross_val_predict
                 (cross_val_predict api XGBClassifier (train_data b) (train_labels b))) (\<lambda>pred_probs'.
     and_then (call E_find_label_issues
                 (find_label_issues api (train_labels b) pred_probs' ''self_confidence'')) (\<lambda>issue_idx'.
     and_then (call E_DataFrame_iloc (df_iloc (df_train v) issue_idx')) (\<lambda>issue_rows.
     and_then (call E_DataFrame_getitem (df_getitem issue_rows ''stud_ID'')) (\<lambda>issue_stud_id.
     and_then (call E_DataFrame_getitem (df_getitem (df_c v) ''stud_ID'')) (\<lambda>ids.
     and_then (call E_DataFrame_getitem (df_mask (df_c v) (isin ids issue_stud_id))) (\<lambda>issues_df0.
     and_then (call E_list_index (df_sort_by_position issues_df0 ''stud_ID'' issue_stud_id)) (\<lambda>issues_df'.
     and_then (display (Table (df_head issues_df'))) (\<lambda>_.
     ret \<lparr>pred_probs = pred_probs', issue_idx = issue_idx', issues_df = issues_df'\<rparr>))))))))"

text \<open>
  Cell 12: the share of the truly mislabelled training rows that were flagged.
  \<open>true_error_idx\<close> are the labels of the rows whose two grades differ.
\<close>

definition true_errors :: "frame \<Rightarrow> cell list \<Rightarrow> cell list \<Rightarrow> nat list" where
  "true_errors df_train' grade noisy =
     map (\<lambda>p. index df_train' ! p)
       (filter (\<lambda>p. grade ! p \<noteq> noisy ! p) [0..<length (index df_train')])"

definition tabular_cell_12 :: "setup_vars \<Rightarrow> issue_vars \<Rightarrow> (rat, 'f, 'g) nb" where
  "tabular_cell_12 v i =
     and_then (call E_DataFrame_getitem (df_getitem (df_train v) ''letter_grade'')) (\<lambda>grade.
     and_then (call E_DataFrame_getitem (df_getitem (df_train v) ''noisy_letter_grade'')) (\<lambda>noisy.
     and_then (py_div (of_nat (card (set (true_errors (df_train v) grade noisy) \<inter> set (issue_idx i))))
                      (of_nat (length (true_errors (df_train v) grade noisy)))) (\<lambda>cl_acc.
     and_then (py_print [Txt ''Percentage of errors found: '', Rounded 1 (cl_acc * 100), Txt ''%'']) (\<lambda>_.
     ret cl_acc))))"

text \<open>Cell 14: the flagged rows are dropped and the same classifier is trained again.\<close>

record 'm clean_vars =
  train_data_cl :: frame
  train_labels_cl :: "cell list"
  model_clean :: 'm
  preds_clean :: "cell list"
  acc_clean :: rat

definition tabular_cell_14 ::
  "'m tabular_api \<Rightarrow> setup_vars \<Rightarrow> 'm baseline_vars \<Rightarrow> issue_vars \<Rightarrow> ('m clean_vars, 'f, 'g) nb" where
  "tabular_cell_14 api v b i =
     and_then (call E_DataFrame_drop (df_drop_rows (df_train v) (issue_idx i))) (\<lambda>kept.
     and_then (call E_DataFrame_getitem (df_getitem kept ''noisy_letter_grade'')) (\<lambda>train_labels_cl'.
     and_then (call E_DataFrame_drop (df_drop_columns kept id_and_label_columns)) (\<lambda>train_data_cl'.
     and_then (call E_XGBClassifier_fit (fit api XGBClassifier train_data_cl' train_labels_cl')) (\<lambda>model.
     and_then (call E_XGBClassifier_predict (predict api model (test_data v))) (\<lambda>preds.
     and_then (call E_accuracy_score (accuracy_score api preds (test_labels v))) (\<lambda>acc.
     and_then (py_print [Txt ''Accuracy with original data: '',
                         Rounded 1 (acc_original b * 100), Txt ''%'']) (\<lambda>_.
     and_then (py_print [Txt ''Accuracy with errors found by cleanlab removed: '',
                         Rounded 1 (acc * 100), Txt ''%'']) (\<lambda>_.
     and_then (py_div ((1 - acc_original b) - (1 - acc)) (1 - acc_original b)) (\<lambda>err.
     and_then (py_print [Txt ''Reduction in error: '', Rounded 1 (err * 100), Txt ''%'']) (\<lambda>_.
     ret \<lparr>train_data_cl = train_data_cl', train_labels_cl = train_labels_cl', model_clean = model,
          preds_clean = preds, acc_clean = acc\<rparr>))))))))))"

text \<open>Cell 17: the labels corrected in Cleanlab Studio, read from its export.\<close>

record 'm studio_vars =
  clean_data :: frame
  clean_labels :: "cell list"
  model_studio :: 'm
  preds_studio :: "cell list"
  acc_studio :: rat

definition tabular_cell_17 ::
  "'m tabular_api \<Rightarrow> setup_vars \<Rightarrow> 'm baseline_vars \<Rightarrow> 'm clean_vars \<Rightarrow> ('m studio_vars, 'f, 'g) nb" where
  "tabular_cell_17 api v b c =
     and_then (call E_pd_read_csv
                 (read_csv api ''https://s.cleanlab.ai/student-grades-demo-studio-export.csv'')) (\<lambda>clean_df0.
     and_then (call E_DataFrame_getitem (df_getitem (df_train v) ''stud_ID'')) (\<lambda>train_students.
     and_then (call E_DataFrame_getitem (df_getitem clean_df0 ''stud_ID'')) (\<lambda>ids.
     and_then (call E_DataFrame_getitem (df_mask clean_df0 (isin ids train_students))) (\<lambda>clean_df1.
     and_then (encode_column api clean_df1 ''cleanlab_suggested_label'') (\<lambda>clean_df2.
     and_then (encode_column api clean_df2 ''notes'') (\<lambda>clean_df3.
     and_then (categorical_column api clean_df3 ''notes'') (\<lambda>clean_df.
     and_then (call E_DataFrame_getitem (df_getitem clean_df ''cleanlab_suggested_label'')) (\<lambda>clean_labels'.
     and_then (call E_DataFrame_getitem
                 (df_getitem_list clean_df [''exam_1'', ''exam_2'', ''exam_3'', ''notes''])) (\<lambda>clean_data'.
     and_then (call E_XGBClassifier_fit (fit api XGBClassifier clean_data' clean_labels')) (\<lambda>model.
     and_then (call E_XGBClassifier_predict (predict api model (test_data v))) (\<lambda>preds.
     and_then (call E_accuracy_score (accuracy_score api preds (test_labels v))) (\<lambda>acc.
     and_then (py_print [Txt ''Accuracy with original data: '',
                         Rounded 1 (acc_original b * 100), Txt ''%'']) (\<lambda>_.
     and_then (py_print [Txt ''Accuracy with errors found by cleanlab removed: '',
                         Rounded 1 (acc_clean c * 100), Txt ''%'']) (\<lambda>_.
     and_then (py_print [Txt ''Accuracy with errors found by Studio fixed: '',
                         Rounded 1 (acc * 100), Txt ''%'']) (\<lambda>_.
     and_then (py_print []) (\<lambda>_.
     and_then (py_div ((1 - acc_original b) - (1 - acc_clean c)) (1 - acc_original b)) (\<lambda>clos_err.
     and_then (py_div ((1 - acc_clean c) - (1 - acc)) (1 - acc_clean c)) (\<lambda>studio_err.
     and_then (py_div ((1 - acc_original b) - (1 - acc)) (1 - acc_original b)) (\<lambda>tot_err.
     and_then (py_print [Txt ''Reduction in error using cleanlab opensource over baseline: '',
                         Rounded 1 (clos_err * 100), Txt ''%'']) (\<lambda>_.
     and_then (py_print [Txt ''Reduction in error using cleanlab Studio over opensource: '',
                         Rounded 1 (studio_err * 100), Txt ''%'']) (\<lambda>_.
     and_then (py_print [Txt ''Reduction in error using Cleanlab Studio over baseline: '',
                         Rounded 1 (tot_err * 100), Txt ''%'']) (\<lambda>_.
     ret \<lparr>clean_data = clean_data', clean_labels = clean_labels', model_studio = model,
          preds_studio = preds, acc_studio = acc\<rparr>))))))))))))))))))))))"

text \<open>The whole notebook, run from top to bottom; the result is the kernel's variables.\<close>

record 'm tabular_vars =
  loaded :: setup_vars
  baseline :: "'m baseline_vars"
  issues :: issue_vars
  cl_acc :: rat
  cleaned :: "'m clean_vars"
  studio :: "'m studio_vars"

definition find_tabular_errors :: "'m tabular_api \<Rightarrow> ('m tabular_vars, 'f, 'g) nb" where
  "find_tabular_errors api =
     and_then (tabular_cell_4 api) (\<lambda>v.
     and_then (tabular_cell_6 api v) (\<lambda>b.
     and_then (tabular_cell_9 api v b) (\<lambda>i.
     and_then (tabular_cell_12 v i) (\<lambda>a.
     and_then (tabular_cell_14 api v b i) (\<lambda>c.
     and_then (tabular_cell_17 api v b c) (\<lambda>s.
     ret \<lparr>loaded = v, baseline = b, issues = i, cl_acc = a, cleaned = c, studio = s\<rparr>))))))"

section \<open>transformer_sklearn.ipynb\<close>

text \<open>
  The entry points of pandas, HuggingFace transformers, Keras, scikit-learn and cleanlab.
  \<open>'tok\<close> is a tokenizer, \<open>'sym\<close> a symbolic Keras tensor, \<open>'bert\<close> the pretrained layer,
  \<open>'net\<close> a \<open>keras.Model\<close>, \<open>'km\<close> a \<open>KerasWrapperModel\<close> and \<open>'cl\<close> a \<open>CleanLearning\<close>
  object.  Fitting a \<open>KerasWrapperModel\<close> changes it; \<open>CleanLearning.fit\<close> changes both the
  \<open>CleanLearning\<close> object and the classifier it wraps, so it returns both.
\<close>

record tokenizer_kwargs =
  padding :: string
  truncation :: bool
  max_length :: nat
  return_tensors :: string

record tokenized =
  input_ids :: "int list list"
  token_type_ids :: "int list list"
  attention_mask :: "int list list"

record model_kwargs =
  kw_model_name :: string
  kw_max_len :: nat
  kw_n_classes :: nat

record compile_kwargs =
  kw_optimizer :: "string \<times> rat"
  kw_loss :: string
  kw_metrics :: "string list"

record fit_kwargs =
  epochs :: nat
  kw_batch_size :: nat

record grid_search_params =
  param_grid :: "(string \<times> nat list) list"
  refit :: bool
  cv :: nat
  verbose :: nat
  scoring :: string
  error_score :: string

record grid_search_result =
  best_score :: rat
  best_params :: "(string \<times> nat) list"

record clean_learning_params =
  cv_n_folds :: nat
  cl_verbose :: bool

record ('tok, 'sym, 'bert, 'net, 'km, 'cl, 'g) keras_api =
  pd_read_csv :: "string \<Rightarrow> exn + frame"
  AutoTokenizer_from_pretrained :: "string \<Rightarrow> exn + 'tok"
  tokenizer_call :: "'tok \<Rightarrow> cell list \<Rightarrow> tokenizer_kwargs \<Rightarrow> exn + tokenized"
  labels_array :: "cell list \<Rightarrow> exn + nat list"
  Input :: "nat \<Rightarrow> string \<Rightarrow> string \<Rightarrow> 'sym"
  Lambda :: "(int \<Rightarrow> int) \<Rightarrow> string \<Rightarrow> 'sym \<Rightarrow> 'sym"
  TFAutoModel_from_pretrained :: "string \<Rightarrow> exn + 'bert"
  bert_pooled_output :: "'bert \<Rightarrow> 'sym \<Rightarrow> 'sym \<Rightarrow> 'sym \<Rightarrow> exn + 'sym"
  Dense :: "nat \<Rightarrow> string \<Rightarrow> 'sym \<Rightarrow> 'sym"
  keras_Model :: "'sym list \<Rightarrow> 'sym \<Rightarrow> exn + 'net"
  KerasWrapperModel ::
    "(string \<Rightarrow> nat \<Rightarrow> nat \<Rightarrow> exn + 'net) \<Rightarrow> model_kwargs \<Rightarrow> compile_kwargs \<Rightarrow> exn + 'km"
  summary :: "'km \<Rightarrow> exn + unit"
  GridSearchCV_fit ::
    "'km \<Rightarrow> grid_search_params \<Rightarrow> int list list \<Rightarrow> nat list \<Rightarrow> 'g \<Rightarrow> (exn + grid_search_result) \<times> 'g"
  keras_fit :: "'km \<Rightarrow> int list list \<Rightarrow> nat list \<Rightarrow> fit_kwargs \<Rightarrow> 'g \<Rightarrow> (exn + 'km) \<times> 'g"
  keras_predict :: "'km \<Rightarrow> int list list \<Rightarrow> exn + nat list"
  np_mean_equal :: "nat list \<Rightarrow> nat list \<Rightarrow> exn + rat"
  CleanLearning :: "'km \<Rightarrow> clean_learning_params \<Rightarrow> exn + 'cl"
  CleanLearning_fit ::
    "'cl \<Rightarrow> 'km \<Rightarrow> int list list \<Rightarrow> nat list \<Rightarrow> fit_kwargs \<Rightarrow> 'g \<Rightarrow> (exn + 'cl \<times> 'km) \<times> 'g"
  get_label_issues :: "'cl \<Rightarrow> exn + frame"
  argsort :: "cell list \<Rightarrow> exn + nat list"

definition MODEL_NAME :: string where "MODEL_NAME = ''bert-base-uncased''"

text \<open>\<open>df.iloc[i][c]\<close>: the row is taken first, then the column.\<close>

definition df_iloc_getitem :: "frame \<Rightarrow> nat \<Rightarrow> string \<Rightarrow> exn + cell" where
  "df_iloc_getitem df i c =
     (if i < length (index df) then pbind (df_getitem df c) (\<lambda>v. Inr (v ! i)) else Inl IndexError)"

text \<open>
  \<^verbatim>\<open>
  print(f"Example Label: {train_data.iloc[i]['label']}")
  print(f"Example Text: {train_data.iloc[i]['review_text']}")
  \<close>
\<close>

definition print_example :: "frame \<Rightarrow> nat \<Rightarrow> (unit, 'f, 'g) nb" where
  "print_example train_data' i =
     and_then (call E_DataFrame_iloc (df_iloc_getitem train_data' i ''label'')) (\<lambda>label.
     and_then (py_print [Txt ''Example Label: '', Val label]) (\<lambda>_.
     and_then (call E_DataFrame_iloc (df_iloc_getitem train_data' i ''review_text'')) (\<lambda>review.
     py_print [Txt ''Example Text: '', Val review])))"

text \<open>
  \<^verbatim>\<open>
  def build_model(model_name:str, max_len:int, n_classes:int):
      input_ids = tf.keras.layers.Input(shape=(max_len,), dtype='int32', name='input_ids')
      token_type_ids = tf.keras.layers.Lambda(lambda x: x * 0, name='token_type_ids')(input_ids)
      attention_mask = tf.keras.layers.Lambda(lambda x: tf.cast(x != 0, tf.int32), name="attention_mask")(input_ids)
      bert_layer = TFAutoModel.from_pretrained(model_name)
      layer = bert_layer(input_ids=input_ids, token_type_ids=token_type_ids, attention_mask=attention_mask)[1]
      output_layer = tf.keras.layers.Dense(n_classes, activation='softmax')(layer)
      model = tf.keras.Model(inputs=[input_ids], outputs=output_layer)
      return model
  \<close>
\<close>

definition build_model ::
  "('tok, 'sym, 'bert, 'net, 'km, 'cl, 'g) keras_api \<Rightarrow> string \<Rightarrow> nat \<Rightarrow> nat \<Rightarrow> exn + 'net" where
  "build_model api model_name' max_len n_classes =
     (let input_ids' = Input api max_len ''int32'' ''input_ids'';
          token_type_ids' = Lambda api (\<lambda>x. x * 0) ''token_type_ids'' input_ids';
          attention_mask' = Lambda api (\<lambda>x. if x \<noteq> 0 then 1 else 0) ''attention_mask'' input_ids'
      in pbind (TFAutoModel_from_pretrained api model_name') (\<lambda>bert_layer.
         pbind (bert_pooled_output api bert_layer input_ids' token_type_ids' attention_mask') (\<lambda>layer.
         keras_Model api [input_ids'] (Dense api n_classes ''softmax'' layer))))"

text \<open>The keyword arguments that the notebook writes out twice (cells 17 and 30).\<close>

definition the_model_kwargs :: model_kwargs where
  "the_model_kwargs = \<lparr>kw_model_name = MODEL_NAME, kw_max_len = 30, kw_n_classes = 2\<rparr>"

definition the_compile_kwargs :: compile_kwargs where
  "the_compile_kwargs =
     \<lparr>kw_optimizer = (''Adam'', 2 / 100000), kw_loss = ''SparseCategoricalCrossentropy'',
      kw_metrics = [''accuracy'']\<rparr>"

definition the_tokenizer_kwargs :: tokenizer_kwargs where
  "the_tokenizer_kwargs =
     \<lparr>padding = ''max_length'', truncation = True, max_length = 30, return_tensors = ''tf''\<rparr>"

text \<open>Cells 7 to 12: the data and its token ids.\<close>

record text_vars =
  reviews_train :: frame
  reviews_test :: frame
  train_input_ids :: "int list list"
  train_labels_arr :: "nat list"
  test_input_ids :: "int list list"
  test_labels_arr :: "nat list"

definition transformer_cells_7_12 ::
  "('tok, 'sym, 'bert, 'net, 'km, 'cl, 'g) keras_api \<Rightarrow> (text_vars, 'f, 'g) nb" where
  "transformer_cells_7_12 api =
     and_then (call E_pd_read_csv (pd_read_csv api ''https://s.cleanlab.ai/amazon_reviews/train.csv'')) (\<lambda>train_data'.
     and_then (call E_pd_read_csv (pd_read_csv api ''https://s.cleanlab.ai/amazon_reviews/test.csv'')) (\<lambda>test_data'.
     and_then (print_example train_data' 0) (\<lambda>_.
     and_then (call E_AutoTokenizer_from_pretrained (AutoTokenizer_from_pretrained api MODEL_NAME)) (\<lambda>tokenizer.
     and_then (call E_DataFrame_getitem (df_getitem train_data' ''review_text'')) (\<lambda>train_text.
     and_then (call E_tokenizer_call (tokenizer_call api tokenizer train_text the_tokenizer_kwargs)) (\<lambda>train_input.
     and_then (call E_DataFrame_getitem (df_getitem test_data' ''review_text'')) (\<lambda>test_text.
     and_then (call E_tokenizer_call (tokenizer_call api tokenizer test_text the_tokenizer_kwargs)) (\<lambda>test_input.
     and_then (call E_DataFrame_getitem (pbind (df_getitem train_data' ''label'') (labels_array api))) (\<lambda>train_labels'.
     and_then (call E_DataFrame_getitem (pbind (df_getitem test_data' ''label'') (labels_array api))) (\<lambda>test_labels'.
     ret \<lparr>reviews_train = train_data', reviews_test = test_data',
          train_input_ids = input_ids train_input, train_labels_arr = train_labels',
          test_input_ids = input_ids test_input, test_labels_arr = test_labels'\<rparr>))))))))))"

text \<open>Cells 17 to 27: the wrapped model, the grid search and the base model.\<close>

record 'km base_vars =
  gs :: grid_search_result
  base_model :: 'km
  model_preds :: "nat list"
  model_accuracy :: rat

definition the_grid_search :: grid_search_params where
  "the_grid_search =
     \<lparr>param_grid = [(''batch_size'', [32, 64]), (''epochs'', [5, 10])], refit = False, cv = 3,
      verbose = 2, scoring = ''accuracy'', error_score = ''raise''\<rparr>"

definition transformer_cells_17_27 ::
  "('tok, 'sym, 'bert, 'net, 'km, 'cl, 'g) keras_api \<Rightarrow> text_vars \<Rightarrow> ('km base_vars, 'f, 'g) nb" where
  "transformer_cells_17_27 api v =
     and_then (call E_KerasWrapperModel
                 (KerasWrapperModel api (build_model api) the_model_kwargs the_compile_kwargs)) (\<lambda>model.
     and_then (call E_KerasWrapperModel_summary (summary api model)) (\<lambda>_.
     and_then (call_rng E_GridSearchCV_fit
                 (GridSearchCV_fit api model the_grid_search (train_input_ids v) (train_labels_arr v))) (\<lambda>gs'.
     and_then (display (Object E_GridSearchCV_fit)) (\<lambda>_.
     and_then (py_print ([Txt ''best score: '', Fixed 3 (best_score gs'), Txt '', best params: ''] @
                         concat (map (\<lambda>(k, n). [Txt k, Num (of_nat n)]) (best_params gs')))) (\<lambda>_.
     and_then (call_rng E_KerasWrapperModel_fit
                 (keras_fit api model (train_input_ids v) (train_labels_arr v)
                    \<lparr>epochs = 5, kw_batch_size = 64\<rparr>)) (\<lambda>model1.
     and_then (call E_KerasWrapperModel_predict (keras_predict api model1 (test_input_ids v))) (\<lambda>preds.
     and_then (call E_accuracy_score (np_mean_equal api preds (test_labels_arr v))) (\<lambda>acc.
     and_then (py_print [Txt ''Base model accuracy = '', Num acc]) (\<lambda>_.
     ret \<lparr>gs = gs', base_model = model1, model_preds = preds, model_accuracy = acc\<rparr>)))))))))"

text \<open>Cells 30 to 41: \<open>CleanLearning\<close> around a fresh model, and the label issues it found.\<close>

record ('km, 'cl) robust_vars =
  cl :: 'cl
  cl_model :: 'km
  cl_preds :: "nat list"
  cl_accuracy :: rat
  label_issues :: frame
  lowest_quality_issues :: "nat list"

definition transformer_cells_30_41 ::
  "('tok, 'sym, 'bert, 'net, 'km, 'cl, 'g) keras_api \<Rightarrow> text_vars \<Rightarrow> (('km, 'cl) robust_vars, 'f, 'g) nb" where
  "transformer_cells_30_41 api v =
     and_then (call E_KerasWrapperModel
                 (KerasWrapperModel api (build_model api) the_model_kwargs the_compile_kwargs)) (\<lambda>model.
     and_then (call E_CleanLearning
                 (CleanLearning api model \<lparr>cv_n_folds = 3, cl_verbose = True\<rparr>)) (\<lambda>cl0.
     and_then (call_rng E_CleanLearning_fit
                 (CleanLearning_fit api cl0 model (train_input_ids v) (train_labels_arr v)
                    \<lparr>epochs = 5, kw_batch_size = 64\<rparr>)) (\<lambda>(cl1, model1).
     and_then (display (Object E_CleanLearning_fit)) (\<lambda>_.
     and_then (call E_KerasWrapperModel_predict (keras_predict api model1 (test_input_ids v))) (\<lambda>preds.
     and_then (call E_accuracy_score (np_mean_equal api preds (test_labels_arr v))) (\<lambda>acc.
     and_then (py_print [Txt ''CleanLearning model accuracy = '', Num acc]) (\<lambda>_.
     and_then (call E_CleanLearning_get_label_issues (get_label_issues api cl1)) (\<lambda>shown_issues.
     and_then (display (Table shown_issues)) (\<lambda>_.
     and_then (call E_CleanLearning_get_label_issues (get_label_issues api cl1)) (\<lambda>label_issues'.
     and_then (call E_DataFrame_getitem (df_getitem label_issues' ''label_quality'')) (\<lambda>quality.
     and_then (call E_Series_argsort (argsort api quality)) (\<lambda>order.
     and_then (py_print (Txt ''index of the top 10 most likely errors: '' #
                         map (\<lambda>k. Num (of_nat k)) (take 10 order))) (\<lambda>_.
     and_then (print_example (reviews_train v) 3477) (\<lambda>_.
     and_then (print_example (reviews_train v) 4560) (\<lambda>_.
     and_then (print_example (reviews_train v) 4516) (\<lambda>_.
     ret \<lparr>cl = cl1, cl_model = model1, cl_preds = preds, cl_accuracy = acc,
          label_issues = label_issues', lowest_quality_issues = take 10 order\<rparr>))))))))))))))))"

text \<open>The whole notebook, run from top to bottom.\<close>

record ('km, 'cl) transformer_vars =
  texts :: text_vars
  base :: "'km base_vars"
  robust :: "('km, 'cl) robust_vars"

definition transformer_sklearn ::
  "('tok, 'sym, 'bert, 'net, 'km, 'cl, 'g) keras_api \<Rightarrow> (('km, 'cl) transformer_vars, 'f, 'g) nb" where
  "transformer_sklearn api =
     and_then (transformer_cells_7_12 api) (\<lambda>v.
     and_then (transformer_cells_17_27 api v) (\<lambda>b.
     and_then (transformer_cells_30_41 api v) (\<lambda>r.
     ret \<lparr>texts = v, base = b, robust = r\<rparr>)))"

section \<open>Vocabulary of the properties\<close>

subsection \<open>Runs and their events\<close>

text \<open>
  \<open>post m w Q\<close>: if the statements \<open>m\<close>, run in the world \<open>w\<close>, end without an exception,
  then \<open>Q\<close> holds of their result and of the world they leave.
\<close>

definition post :: "('a, 'f, 'g) nb \<Rightarrow> ('f, 'g) world \<Rightarrow> ('a \<Rightarrow> ('f, 'g) world \<Rightarrow> bool) \<Rightarrow> bool" where
  "post m w Q \<longleftrightarrow> (\<forall>x w'. m w = (Inr x, w') \<longrightarrow> Q x w')"

text \<open>The events that the statements \<open>m\<close>, run in the world \<open>w\<close>, add to the trace.\<close>

definition events_of :: "('a, 'f, 'g) nb \<Rightarrow> ('f, 'g) world \<Rightarrow> event list" where
  "events_of m w = drop (length (trace w)) (trace (snd (m w)))"

text \<open>How a run ended: with the exception that reached the top level, or without one.\<close>

definition outcome :: "exn + 'a \<Rightarrow> exn option" where
  "outcome r = (case r of Inl e \<Rightarrow> Some e | Inr x \<Rightarrow> None)"

fun is_raise :: "event \<Rightarrow> bool" where
  "is_raise (Raised n e) = True"
| "is_raise ev = False"

fun raise_of :: "exn \<Rightarrow> event \<Rightarrow> bool" where
  "raise_of e (Raised n e') = (e' = e)"
| "raise_of e ev = False"

fun is_write :: "event \<Rightarrow> bool" where
  "is_write (FileWrite p) = True"
| "is_write ev = False"

fun is_assign :: "event \<Rightarrow> bool" where
  "is_assign (Assign name idx) = True"
| "is_assign ev = False"

text \<open>
  \<open>propagated r evs\<close>: the events \<open>evs\<close> of a run that ended as \<open>r\<close> show no handling of
  exceptions.  A run that ended without an exception raised none.  A run that ended with
  the exception \<open>e\<close> raised exactly once, \<open>e\<close> itself, and did nothing after that.
\<close>

definition propagated :: "exn option \<Rightarrow> event list \<Rightarrow> bool" where
  "propagated r evs =
     (case r of
        None \<Rightarrow> \<not> list_ex is_raise evs
      | Some e \<Rightarrow> evs \<noteq> [] \<and> raise_of e (last evs) \<and> \<not> list_ex is_raise (butlast evs))"

text \<open>
  \<open>run_ok P m\<close>: however the statements \<open>m\<close> end, in whatever world they start, they only add
  events to the trace, every event they add satisfies \<open>P\<close>, the events show no handling of
  exceptions, and a file that no \<open>FileWrite\<close> event names is left as it was.
\<close>

definition run_ok :: "(event \<Rightarrow> bool) \<Rightarrow> ('a, 'f, 'g) nb \<Rightarrow> bool" where
  "run_ok P m \<longleftrightarrow>
     (\<forall>w. \<exists>evs. trace (snd (m w)) = trace w @ evs \<and> list_all P evs \<and>
        propagated (outcome (fst (m w))) evs \<and>
        (\<forall>p. FileWrite p \<notin> set evs \<longrightarrow> files (snd (m w)) p = files w p))"

subsection \<open>The four stages of a notebook\<close>

text \<open>
  The stages by the library calls that carry them out: loading a dataset
  (\<open>pd.read_csv\<close>, \<open>ImageFolder\<close>), training a model (\<open>XGBClassifier.fit\<close>,
  \<open>KerasWrapperModel.fit\<close>, an optimizer step of the PyTorch loop), finding label
  issues (\<open>find_label_issues\<close>, \<open>CleanLearning.fit\<close>, \<open>CleanLearning.get_label_issues\<close>), and
  the two prints of the accuracy before and after the cleaning, recognised by the text
  they start with.
\<close>

fun is_load :: "event \<Rightarrow> bool" where
  "is_load (Call n) = (n = E_pd_read_csv \<or> n = E_ImageFolder)"
| "is_load ev = False"

fun is_train :: "event \<Rightarrow> bool" where
  "is_train (Call n) = (n = E_XGBClassifier_fit \<or> n = E_KerasWrapperModel_fit \<or> n = E_optimizer_step)"
| "is_train ev = False"

fun is_detect :: "event \<Rightarrow> bool" where
  "is_detect (Call n) =
     (n = E_find_label_issues \<or> n = E_CleanLearning_fit \<or> n = E_CleanLearning_get_label_issues)"
| "is_detect ev = False"

fun printed_label :: "event \<Rightarrow> string option" where
  "printed_label (Print (Txt s # items)) = Some s"
| "printed_label ev = None"

definition reports_baseline_accuracy :: "event \<Rightarrow> bool" where
  "reports_baseline_accuracy ev \<longleftrightarrow>
     printed_label ev = Some ''Accuracy with original data: '' \<or>
     printed_label ev = Some ''Base model accuracy = ''"

definition reports_cleaned_accuracy :: "event \<Rightarrow> bool" where
  "reports_cleaned_accuracy ev \<longleftrightarrow>
     printed_label ev = Some ''Accuracy with errors found by cleanlab removed: '' \<or>
     printed_label ev = Some ''CleanLearning model accuracy = ''"

definition four_stages :: "event list \<Rightarrow> bool" where
  "four_stages evs \<longleftrightarrow>
     list_ex is_load evs \<and> list_ex is_train evs \<and> list_ex is_detect evs \<and>
     list_ex reports_baseline_accuracy evs \<and> list_ex reports_cleaned_accuracy evs"

subsection \<open>The events of train_image_classifier.ipynb\<close>

definition is_checkpoint_path :: "fitem list \<Rightarrow> bool" where
  "is_checkpoint_path p \<longleftrightarrow> (\<exists>k. p = checkpoint_path k)"

text \<open>The files of the image notebook: the two arrays and the checkpoints of the folds.\<close>

fun image_artifact :: "event \<Rightarrow> bool" where
  "image_artifact (FileWrite p) = (p = features_path \<or> p = pred_probs_path \<or> is_checkpoint_path p)"
| "image_artifact ev = True"

text \<open>
  What every event of the image notebook is like: it writes no other file than these, it
  is no call of a function that finds label issues, and it prints no accuracy before or
  after a cleaning.  The events of cells 4 to 10 moreover assign to no array.
\<close>

definition image_event :: "event \<Rightarrow> bool" where
  "image_event ev \<longleftrightarrow>
     image_artifact ev \<and> \<not> is_detect ev \<and> \<not> reports_baseline_accuracy ev \<and>
     \<not> reports_cleaned_accuracy ev"

definition training_event :: "event \<Rightarrow> bool" where
  "training_event ev \<longleftrightarrow> image_event ev \<and> \<not> is_assign ev"

subsection \<open>Folds, training and the saved rows\<close>

text \<open>
  \<open>kfold_partition n folds\<close>: the held-out index arrays of the folds have no index twice,
  neither within a fold nor across folds, they cover \<open>0 .. n-1\<close>, and no fold trains on an
  index it holds out.
\<close>

definition kfold_partition :: "nat \<Rightarrow> (nat list \<times> nat list) list \<Rightarrow> bool" where
  "kfold_partition n folds \<longleftrightarrow>
     distinct (concat (map snd folds)) \<and>
     set (concat (map snd folds)) = {0..<n} \<and>
     list_all (\<lambda>(train_idx, test_idx). set train_idx \<inter> set test_idx = {}) folds"

text \<open>
  The rows that the events \<open>evs\<close> assigned to in the array \<open>name\<close>, in the order of the
  assignments; a row that was assigned twice is there twice.
\<close>

fun rows_of :: "string \<Rightarrow> event \<Rightarrow> nat list" where
  "rows_of name (Assign name' idx) = (if name' = name then idx else [])"
| "rows_of name ev = []"

definition assigned_rows :: "string \<Rightarrow> event list \<Rightarrow> nat list" where
  "assigned_rows name evs = concat (map (rows_of name) evs)"

text \<open>
  \<open>trained_on api ds n_classes I m\<close>: the model \<open>m\<close> came out of \<open>timm.create_model\<close> and
  has since taken training steps on batches of samples whose indices all lie in \<open>I\<close>.
\<close>

inductive trained_on ::
  "('px, 't, 'm, 'sd, 'g) torch_api \<Rightarrow> 't dataset \<Rightarrow> nat \<Rightarrow> nat set \<Rightarrow> 'm \<Rightarrow> bool"
  for api ds n_classes I where
  created: "create_model api model_name True n_classes g = (Inr m, g') \<Longrightarrow>
            trained_on api ds n_classes I m"
| stepped: "trained_on api ds n_classes I m \<Longrightarrow> set js \<subseteq> I \<Longrightarrow> fetch ds js = Inr batch \<Longrightarrow>
            train_step api m learning_rate batch g = (Inr (m', l), g') \<Longrightarrow>
            trained_on api ds n_classes I m'"

text \<open>
  \<open>predicted_by api ds n_classes sd test_idx i row\<close>: \<open>row\<close> is the row for sample \<open>i\<close> of
  the softmax outputs that a model loaded from the state dict \<open>sd\<close> gives on the batches of
  \<open>test_idx\<close>, concatenated and brought to the shape of the rows they are assigned to;
  \<open>extracted_by\<close> is the same for the outputs after \<open>reset_classifier(0)\<close>, which have
  \<open>n_features\<close> columns.
\<close>

definition predicted_by ::
  "('px, 't, 'm, 'sd, 'g) torch_api \<Rightarrow> 't dataset \<Rightarrow> nat \<Rightarrow> 'sd \<Rightarrow> nat list \<Rightarrow> nat \<Rightarrow> rat list \<Rightarrow> bool" where
  "predicted_by api ds n_classes sd test_idx i row \<longleftrightarrow>
     (\<exists>g g' m0 m (w :: ('sd stored, 'g) world) w' parts vals rows j.
        create_model api model_name True n_classes g = (Inr m0, g') \<and>
        load_state_dict api m0 sd = Inr m \<and>
        pred_probs_batches api ds m [] (chunks batch_size test_idx) w = (Inr parts, w') \<and>
        np_concatenate parts = Inr vals \<and>
        np_broadcast (length test_idx) n_classes vals = Inr rows \<and>
        j < length test_idx \<and> test_idx ! j = i \<and> row = rows ! j)"

definition extracted_by ::
  "('px, 't, 'm, 'sd, 'g) torch_api \<Rightarrow> 't dataset \<Rightarrow> nat \<Rightarrow> nat \<Rightarrow> 'sd \<Rightarrow> nat list \<Rightarrow> nat \<Rightarrow>
   rat list \<Rightarrow> bool" where
  "extracted_by api ds n_classes n_features sd test_idx i row \<longleftrightarrow>
     (\<exists>g g' m0 m1 m2 (w :: ('sd stored, 'g) world) w' parts vals rows j.
        create_model api model_name True n_classes g = (Inr m0, g') \<and>
        load_state_dict api m0 sd = Inr m1 \<and>
        reset_classifier api m1 0 = Inr m2 \<and>
        features_batches api ds m2 [] (chunks batch_size test_idx) w = (Inr parts, w') \<and>
        np_concatenate parts = Inr vals \<and>
        np_broadcast (length test_idx) n_features vals = Inr rows \<and>
        j < length test_idx \<and> test_idx ! j = i \<and> row = rows ! j)"

text \<open>Vocabulary of the loop invariants of cells 10 and 12.\<close>

definition fold_rows_ok ::
  "('px, 't, 'm, 'sd, 'g) torch_api \<Rightarrow> 't dataset \<Rightarrow> nat \<Rightarrow> nat \<Rightarrow> (fitem list \<Rightarrow> 'sd stored option) \<Rightarrow>
   (nat \<times> nat list \<times> nat list) list \<Rightarrow> rat list list \<Rightarrow> rat list list \<Rightarrow> bool" where
  "fold_rows_ok api ds C NF F0 efolds pp' features' \<longleftrightarrow>
     (\<forall>(f, tr, te) \<in> set efolds. \<forall>j < length te. \<exists>sd sd1.
        F0 (checkpoint_path (f + 1)) = Some (Checkpoint sd) \<and>
        F0 (checkpoint_path 1) = Some (Checkpoint sd1) \<and>
        predicted_by api ds C sd te (te ! j) (pp' ! (te ! j)) \<and>
        extracted_by api ds C NF sd1 te (te ! j) (features' ! (te ! j)))"

definition files_after_fold ::
  "('px, 't, 'm, 'sd, 'g) torch_api \<Rightarrow> 't dataset \<Rightarrow> nat \<Rightarrow> nat set \<Rightarrow> nat \<Rightarrow>
   (fitem list \<Rightarrow> 'sd stored option) \<Rightarrow> (fitem list \<Rightarrow> 'sd stored option) \<Rightarrow> bool" where
  "files_after_fold api ds C I k F F' \<longleftrightarrow>
     (\<forall>p. p \<noteq> checkpoint_path k \<longrightarrow> F' p = F p) \<and>
     (F' (checkpoint_path k) = F (checkpoint_path k) \<or>
      (\<exists>m. F' (checkpoint_path k) = Some (Checkpoint (state_dict api m)) \<and> trained_on api ds C I m))"

definition files_after_training ::
  "('px, 't, 'm, 'sd, 'g) torch_api \<Rightarrow> 't dataset \<Rightarrow> nat \<Rightarrow> (nat \<times> nat list \<times> nat list) list \<Rightarrow>
   (fitem list \<Rightarrow> 'sd stored option) \<Rightarrow> (fitem list \<Rightarrow> 'sd stored option) \<Rightarrow> bool" where
  "files_after_training api ds C efolds F F' \<longleftrightarrow>
     (\<forall>(f, tr, te) \<in> set efolds.
        F' (checkpoint_path (Suc f)) = F (checkpoint_path (Suc f)) \<or>
        (\<exists>m. F' (checkpoint_path (Suc f)) = Some (Checkpoint (state_dict api m)) \<and>
             trained_on api ds C (set tr) m)) \<and>
     (\<forall>p. (\<forall>(f, tr, te) \<in> set efolds. p \<noteq> checkpoint_path (Suc f)) \<longrightarrow> F' p = F p)"

subsection \<open>A small run of train_image_classifier.ipynb\<close>

text \<open>
  Thirty-seven images of one class.  The first fold holds out the images 0 to 32, more
  than one batch of 32; each of the other four holds out one of the images 33 to 36.  A
  model is the number of samples it has been trained on (and whether it still has its
  classifier); its output for a sample is that number and the sample.  The file system
  starts empty.  The validation accuracy is 100 from the first epoch on, so every fold
  saves its checkpoint after the first epoch and stops early in the fourth.
\<close>

definition demo_vision :: "(nat, nat) vision_api" where
  "demo_vision =
     \<lparr>pil_convert = (\<lambda>img m. Inr (img\<lparr>mode := m\<rparr>)), Resize = (\<lambda>_. Inr), CenterCrop = (\<lambda>_. Inr),
      ToTensor = (\<lambda>img. Inr (pixels img)), Normalize = (\<lambda>_ _. Inr)\<rparr>"

definition demo_dataset :: "nat dataset" where
  "demo_dataset = \<lparr>classes = [''cat'', ''dog''], targets = replicate 37 0, load_item = Inr\<rparr>"

definition demo_number :: "nat \<Rightarrow> nat" where
  "demo_number j = (if j < 33 then 0 else j - 32)"

definition demo_torch :: "(nat, nat, nat \<times> bool, nat \<times> bool, unit) torch_api" where
  "demo_torch =
     \<lparr>ImageFolder = (\<lambda>_ _. Inr demo_dataset),
      RandomState = (\<lambda>_. ()),
      test_folds = (\<lambda>_ _ g. (Inr demo_number, g)),
      create_model = (\<lambda>_ _ _ g. (Inr (0, True), g)),
      num_features = (\<lambda>_. 1),
      RandomSampler = (\<lambda>n g. (rev [0..<n], g)),
      train_step = (\<lambda>m _ batch g. (Inr ((fst m + length batch, snd m), 1 / 2), g)),
      forward = (\<lambda>m ts. Inr (map (\<lambda>t. if snd m then [of_nat (fst m), of_nat t] else [of_nat t]) ts)),
      torch_max = (\<lambda>rows. Inr (map (\<lambda>_. 0) rows)),
      eq_sum = (\<lambda>p t. Inr (length (filter (\<lambda>(a, b). a = b) (zip p t)))),
      softmax = Inr,
      state_dict = (\<lambda>m. m),
      load_state_dict = (\<lambda>_ sd. Inr sd),
      reset_classifier = (\<lambda>m _. Inr (fst m, False))\<rparr>"

definition demo_world :: "((nat \<times> bool) stored, unit) world" where
  "demo_world = \<lparr>trace = [], files = (\<lambda>_. None), rng = ()\<rparr>"

definition demo_folds :: "(nat list \<times> nat list) list" where
  "demo_folds =
     [([33, 34, 35, 36], [0..<33]), ([0..<33] @ [34, 35, 36], [33]), ([0..<34] @ [35, 36], [34]),
      ([0..<35] @ [36], [35]), ([0..<36], [36])]"

subsection \<open>Tables that differ in one column\<close>

text \<open>
  \<open>differ_only_in c df df'\<close>: the two tables have the same rows and the same columns in the
  same order, and the same values in every column but \<open>c\<close>.
\<close>

definition differ_only_in :: "string \<Rightarrow> frame \<Rightarrow> frame \<Rightarrow> bool" where
  "differ_only_in c df df' \<longleftrightarrow>
     index df = index df' \<and>
     list_all2 (\<lambda>(k, v) (k', v'). k = k' \<and> (k \<noteq> c \<longrightarrow> v = v')) (cols df) (cols df')"

fun is_display :: "event \<Rightarrow> bool" where
  "is_display (Display x) = True"
| "is_display ev = False"

subsection \<open>A small run of find_tabular_errors.ipynb\<close>

text \<open>
  Nine students; the split puts seven of them into the training table and two into the
  test table.  Two training rows carry a wrong noisy grade (students 102 and 100).  The
  stand-in for the classifier remembers the first exam and the label of its training rows
  and predicts the label of the first row with the same first exam (grade A when there is
  none); \<open>find_label_issues\<close> flags the rows whose given label has a predicted probability
  below one half.  The baseline gets both test rows wrong, the classifier trained without
  the flagged rows gets one right, the one trained on the labels of the Studio export
  both.  \<open>demo_grades_2\<close> and \<open>demo_grades_3\<close> are the same table with other values in the
  column \<open>letter_grade\<close>; in \<open>demo_grades_3\<close> no training row has a wrong noisy grade.
\<close>

definition demo_grades :: frame where
  "demo_grades =
     \<lparr>index = [0, 1, 2, 3, 4, 5, 6, 7, 8],
      cols = [(''stud_ID'', [N 100, N 101, N 102, N 103, N 104, N 105, N 106, N 107, N 108]),
              (''exam_1'', [N 50, N 50, N 90, N 90, N 90, N 91, N 92, N 93, N 51]),
              (''exam_2'', [N 60, N 60, N 80, N 80, N 80, N 80, N 80, N 80, N 60]),
              (''exam_3'', [N 55, N 55, N 95, N 95, N 95, N 95, N 95, N 95, N 55]),
              (''notes'', [NaN, NaN, NaN, NaN, NaN, NaN, NaN, NaN, NaN]),
              (''letter_grade'',
               [S ''B'', S ''B'', S ''A'', S ''A'', S ''A'', S ''A'', S ''A'', S ''A'', S ''B'']),
              (''noisy_letter_grade'',
               [S ''A'', S ''B'', S ''B'', S ''A'', S ''A'', S ''A'', S ''A'', S ''A'', S ''B''])]\<rparr>"

definition demo_export :: frame where
  "demo_export =
     \<lparr>index = [0, 1, 2, 3, 4, 5, 6, 7, 8],
      cols = [(''stud_ID'', [N 100, N 101, N 102, N 103, N 104, N 105, N 106, N 107, N 108]),
              (''exam_1'', [N 50, N 50, N 90, N 90, N 90, N 91, N 92, N 93, N 51]),
              (''exam_2'', [N 60, N 60, N 80, N 80, N 80, N 80, N 80, N 80, N 60]),
              (''exam_3'', [N 55, N 55, N 95, N 95, N 95, N 95, N 95, N 95, N 55]),
              (''notes'', [NaN, NaN, NaN, NaN, NaN, NaN, NaN, NaN, NaN]),
              (''cleanlab_suggested_label'',
               [S ''B'', S ''B'', S ''A'', S ''A'', S ''A'', S ''A'', S ''A'', S ''A'', S ''B''])]\<rparr>"

definition demo_encode :: "cell \<Rightarrow> cell" where
  "demo_encode c = (if c = S ''A'' then Code 0 else if c = S ''B'' then Code 1 else Code 2)"

definition demo_lookup :: "(cell \<times> cell) list \<Rightarrow> cell \<Rightarrow> cell" where
  "demo_lookup m x = (case map_of m x of Some l \<Rightarrow> l | None \<Rightarrow> Code 0)"

definition demo_proba :: "cell \<Rightarrow> rat list" where
  "demo_proba l = (if l = Code 0 then [9 / 10, 1 / 10] else [1 / 10, 9 / 10])"

definition demo_confidence :: "cell list \<Rightarrow> rat list list \<Rightarrow> nat \<Rightarrow> rat" where
  "demo_confidence labels pp p = (case labels ! p of Code k \<Rightarrow> pp ! p ! k | _ \<Rightarrow> 0)"

definition demo_tabular :: "frame \<Rightarrow> (cell \<times> cell) list tabular_api" where
  "demo_tabular grades =
     \<lparr>read_csv = (\<lambda>url. if url = ''https://s.cleanlab.ai/student-grades-demo.csv''
                         then Inr grades else Inr demo_export),
      LabelEncoder_fit_transform = (\<lambda>v. Inr (map demo_encode v)),
      astype = (\<lambda>v _. Inr (map (\<lambda>c. case c of Code k \<Rightarrow> Cat k | _ \<Rightarrow> c) v)),
      split_positions = (\<lambda>_ _. Inr ([2, 0, 4, 5, 6, 7, 8], [3, 1])),
      fit = (\<lambda>_ X y. pbind (df_getitem X ''exam_1'') (\<lambda>v. Inr (zip v y))),
      predict = (\<lambda>m X. pbind (df_getitem X ''exam_1'') (\<lambda>v. Inr (map (demo_lookup m) v))),
      accuracy_score = (\<lambda>p t. Inr (of_nat (length (filter (\<lambda>(a, b). a = b) (zip p t))) / of_nat (length t))),
      predict_proba = (\<lambda>m X. pbind (df_getitem X ''exam_1'')
                         (\<lambda>v. Inr (map (\<lambda>x. demo_proba (demo_lookup m x)) v))),
      cv_numbers = (\<lambda>y j. j),
      find_label_issues = (\<lambda>labels pp _.
         Inr (sort_key (demo_confidence labels pp)
                (filter (\<lambda>p. demo_confidence labels pp p < 1 / 2) [0..<length labels])))\<rparr>"

definition demo_tworld :: "(unit, unit) world" where
  "demo_tworld = \<lparr>trace = [], files = (\<lambda>_. None), rng = ()\<rparr>"

definition with_letter_grade :: "cell list \<Rightarrow> frame \<Rightarrow> frame" where
  "with_letter_grade g df =
     df\<lparr>cols := map (\<lambda>(k, v). if k = ''letter_grade'' then (k, g) else (k, v)) (cols df)\<rparr>"

definition demo_grades_2 :: frame where
  "demo_grades_2 =
     with_letter_grade [S ''B'', S ''B'', S ''B'', S ''A'', S ''A'', S ''A'', S ''A'', S ''A'', S ''B'']
       demo_grades"

definition demo_grades_3 :: frame where
  "demo_grades_3 =
     with_letter_grade [S ''A'', S ''B'', S ''B'', S ''A'', S ''A'', S ''A'', S ''A'', S ''A'', S ''B'']
       demo_grades"

subsection \<open>A small run of transformer_sklearn.ipynb\<close>

text \<open>
  Five thousand training reviews (the notebook prints the reviews 3477, 4560 and 4516), two
  test reviews, and stand-ins for the tokenizer, the Keras model and \<open>CleanLearning\<close>: a
  model is the number of epochs it has been fitted for, and it predicts well once that
  number has reached ten.  \<open>get_label_issues\<close> gives a table in the order of the examples,
  which the notebook ranks by label quality itself.
\<close>

definition demo_reviews :: frame where
  "demo_reviews =
     \<lparr>index = [0..<5000],
      cols = [(''review_text'', replicate 5000 (S ''works as described'')),
              (''label'', replicate 5000 (Code 1))]\<rparr>"

definition demo_test_reviews :: frame where
  "demo_test_reviews =
     \<lparr>index = [0, 1],
      cols = [(''review_text'', [S ''broke in a week'', S ''works as described'']),
              (''label'', [Code 0, Code 1])]\<rparr>"

definition demo_label_issues :: frame where
  "demo_label_issues =
     \<lparr>index = [0, 1, 2],
      cols = [(''is_label_issue'', [Code 0, Code 1, Code 0]),
              (''label_quality'', [N (9 / 10), N (1 / 10), N (1 / 2)]),
              (''given_label'', [Code 1, Code 1, Code 1]),
              (''predicted_label'', [Code 1, Code 0, Code 1])]\<rparr>"

definition demo_quality :: "cell \<Rightarrow> rat" where
  "demo_quality c = (case c of N q \<Rightarrow> q | _ \<Rightarrow> 0)"

definition demo_keras :: "(unit, string, unit, string, nat, nat \<times> frame, unit) keras_api" where
  "demo_keras =
     \<lparr>pd_read_csv = (\<lambda>url. if url = ''https://s.cleanlab.ai/amazon_reviews/train.csv''
                            then Inr demo_reviews else Inr demo_test_reviews),
      AutoTokenizer_from_pretrained = (\<lambda>_. Inr ()),
      tokenizer_call = (\<lambda>_ texts _.
         Inr \<lparr>input_ids = map (\<lambda>c. if c = S ''works as described'' then [101, 7, 102] else [101, 8, 102]) texts,
              token_type_ids = map (\<lambda>_. [0, 0, 0]) texts,
              attention_mask = map (\<lambda>_. [1, 1, 1]) texts\<rparr>),
      labels_array = (\<lambda>v. Inr (map (\<lambda>c. case c of Code k \<Rightarrow> k | _ \<Rightarrow> 0) v)),
      Input = (\<lambda>_ _ name. name),
      Lambda = (\<lambda>_ name _. name),
      TFAutoModel_from_pretrained = (\<lambda>_. Inr ()),
      bert_pooled_output = (\<lambda>_ _ _ _. Inr ''pooled''),
      Dense = (\<lambda>_ _ _. ''dense''),
      keras_Model = (\<lambda>_ out. Inr out),
      KerasWrapperModel = (\<lambda>_ _ _. Inr 0),
      summary = (\<lambda>_. Inr ()),
      GridSearchCV_fit = (\<lambda>_ _ _ _ g.
         (Inr \<lparr>best_score = 9 / 10, best_params = [(''batch_size'', 32), (''epochs'', 5)]\<rparr>, g)),
      keras_fit = (\<lambda>m _ _ kw g. (Inr (m + epochs kw), g)),
      keras_predict = (\<lambda>m X. Inr (map (\<lambda>ids. if m < 10 \<or> ids = [101, 7, 102] then 1 else 0) X)),
      np_mean_equal = (\<lambda>p t.
         Inr (of_nat (length (filter (\<lambda>(a, b). a = b) (zip p t))) / of_nat (length t))),
      CleanLearning = (\<lambda>m _. Inr (m, \<lparr>index = [], cols = []\<rparr>)),
      CleanLearning_fit = (\<lambda>c m _ _ kw g. (Inr ((m + 3 * epochs kw, demo_label_issues), m + 3 * epochs kw), g)),
      get_label_issues = (\<lambda>c. Inr (snd c)),
      argsort = (\<lambda>v. Inr (sort_key (\<lambda>p. demo_quality (v ! p)) [0..<length v]))\<rparr>"

section \<open>Reasoning about runs that end without an exception\<close>

lemma post_ret [simp]: "post (ret x) w Q = Q x w"
  by (simp add: post_def ret_def)

lemma post_and_then [simp]: "post (and_then m f) w Q = post m w (\<lambda>x w'. post (f x) w' Q)"
  by (auto simp: post_def and_then_def split: prod.splits sum.splits)

lemma post_emit [simp]: "post (emit ev) w Q = Q () (w\<lparr>trace := trace w @ [ev]\<rparr>)"
  by (simp add: post_def emit_def)

lemma post_py_raise [simp]: "post (py_raise e) w Q"
  by (simp add: post_def py_raise_def)

lemma post_call [simp]:
  "post (call name r) w Q = (\<forall>x. r = Inr x \<longrightarrow> Q x (w\<lparr>trace := trace w @ [Call name]\<rparr>))"
  by (auto simp: post_def call_def split: sum.splits)

lemma post_call_rng [simp]:
  "post (call_rng name f) w Q =
     (\<forall>x g'. f (rng w) = (Inr x, g') \<longrightarrow> Q x (w\<lparr>rng := g', trace := trace w @ [Call name]\<rparr>))"
  by (auto simp: post_def call_rng_def call_def split: sum.splits prod.splits)

lemma post_write_file [simp]:
  "post (write_file path c) w Q =
     Q () (w\<lparr>trace := trace w @ [FileWrite path], files := (files w)(path \<mapsto> c)\<rparr>)"
  by (simp add: post_def write_file_def)

lemma post_py_div [simp]: "post (py_div a b) w Q = (b \<noteq> 0 \<longrightarrow> Q (a / b) w)"
  by (simp add: py_div_def)

lemma post_torch_load [simp]:
  "post (torch_load path) w Q =
     (\<forall>sd. files w path = Some (Checkpoint sd) \<longrightarrow> Q sd (w\<lparr>trace := trace w @ [Call E_torch_load]\<rparr>))"
  by (auto simp: post_def torch_load_def call_def split: sum.splits option.splits stored.splits)

lemma post_ndarray_setitem [simp]:
  "post (ndarray_setitem name c a idx vals) w Q =
     (\<forall>a'. np_setitem c a idx vals = Inr a' \<longrightarrow>
        Q a' (w\<lparr>trace := trace w @ [Call E_ndarray_setitem, Assign name idx]\<rparr>))"
  by (simp add: ndarray_setitem_def)

lemma post_if: "post (if b then m else m') w Q = (if b then post m w Q else post m' w Q)"
  by simp

lemma postD: "post m w Q \<Longrightarrow> m w = (Inr x, w') \<Longrightarrow> Q x w'"
  by (simp add: post_def)

lemma post_mono: "post m w Q \<Longrightarrow> (\<And>x w'. Q x w' \<Longrightarrow> Q' x w') \<Longrightarrow> post m w Q'"
  by (auto simp: post_def)

lemma post_self: "post m w (\<lambda>x w'. m w = (Inr x, w'))"
  by (simp add: post_def)

lemma post_conj: "post m w Q \<Longrightarrow> post m w Q' \<Longrightarrow> post m w (\<lambda>x w'. Q x w' \<and> Q' x w')"
  by (simp add: post_def)

lemma post_char:
  "post m w Q \<Longrightarrow> post m w (\<lambda>x w'. Q x w' \<and> m w = (Inr x, w'))"
  by (simp add: post_def)

lemma post_bind_rule:
  "post m w R \<Longrightarrow> (\<And>x w'. R x w' \<Longrightarrow> m w = (Inr x, w') \<Longrightarrow> post (f x) w' Q) \<Longrightarrow> post (and_then m f) w Q"
  unfolding post_def and_then_def by (fastforce split: prod.splits sum.splits)

section \<open>Reasoning about the events of every run\<close>

lemma outcome_simps [simp]: "outcome (Inl e) = Some e" "outcome (Inr x) = None"
  by (simp_all add: outcome_def)

lemma run_okI:
  "(\<And>w. \<exists>evs. trace (snd (m w)) = trace w @ evs \<and> list_all P evs \<and>
        propagated (outcome (fst (m w))) evs \<and>
        (\<forall>p. FileWrite p \<notin> set evs \<longrightarrow> files (snd (m w)) p = files w p)) \<Longrightarrow> run_ok P m"
  by (simp add: run_ok_def)

lemma run_okD:
  assumes "run_ok P m"
  shows "trace (snd (m w)) = trace w @ events_of m w"
    and "list_all P (events_of m w)"
    and "propagated (outcome (fst (m w))) (events_of m w)"
    and "FileWrite p \<notin> set (events_of m w) \<Longrightarrow> files (snd (m w)) p = files w p"
proof -
  from assms obtain evs where e: "trace (snd (m w)) = trace w @ evs" "list_all P evs"
    "propagated (outcome (fst (m w))) evs"
    "\<forall>p. FileWrite p \<notin> set evs \<longrightarrow> files (snd (m w)) p = files w p"
    unfolding run_ok_def by blast
  then have ev: "events_of m w = evs" by (simp add: events_of_def)
  show "trace (snd (m w)) = trace w @ events_of m w" using e ev by simp
  show "list_all P (events_of m w)" using e ev by simp
  show "propagated (outcome (fst (m w))) (events_of m w)" using e ev by simp
  show "files (snd (m w)) p = files w p" if "FileWrite p \<notin> set (events_of m w)"
    using e ev that by simp
qed

lemma run_ok_mono: "run_ok P m \<Longrightarrow> (\<And>ev. P ev \<Longrightarrow> Q ev) \<Longrightarrow> run_ok Q m"
  unfolding run_ok_def list_all_iff by meson

lemma propagated_append:
  "propagated None evs1 \<Longrightarrow> propagated r evs2 \<Longrightarrow> propagated r (evs1 @ evs2)"
  by (cases r) (auto simp: propagated_def butlast_append list_ex_iff)

lemma run_ok_ret: "run_ok P (ret x)"
  by (rule run_okI) (simp add: ret_def propagated_def)

lemma run_ok_emit:
  "P ev \<Longrightarrow> \<not> is_raise ev \<Longrightarrow> \<not> is_write ev \<Longrightarrow> run_ok P (emit ev)"
  by (rule run_okI) (simp add: emit_def propagated_def)

lemma run_ok_py_raise: "P (Raised E_interpreter e) \<Longrightarrow> run_ok P (py_raise e)"
  by (rule run_okI) (simp add: py_raise_def propagated_def)

lemma run_ok_call:
  "P (Call n) \<Longrightarrow> (\<And>e. P (Raised n e)) \<Longrightarrow> run_ok P (call n r)"
  by (rule run_okI) (cases r; simp add: call_def propagated_def)

lemma run_ok_call_rng:
  "P (Call n) \<Longrightarrow> (\<And>e. P (Raised n e)) \<Longrightarrow> run_ok P (call_rng n f)"
  by (rule run_okI)
     (auto simp: call_rng_def call_def propagated_def split: prod.splits sum.splits)

lemma run_ok_write_file: "P (FileWrite p) \<Longrightarrow> run_ok P (write_file p c)"
  by (rule run_okI) (simp add: write_file_def propagated_def)

lemma run_ok_and_then:
  assumes m: "run_ok P m" and f: "\<And>x. run_ok P (f x)"
  shows "run_ok P (and_then m f)"
proof (rule run_okI)
  fix w
  obtain r w1 where mw: "m w = (r, w1)" by (cases "m w")
  from run_okD [OF m, where w = w] mw
  have 1: "trace w1 = trace w @ events_of m w" "list_all P (events_of m w)"
    "propagated (outcome r) (events_of m w)"
    "\<And>p. FileWrite p \<notin> set (events_of m w) \<Longrightarrow> files w1 p = files w p"
    by simp_all
  show "\<exists>evs. trace (snd (and_then m f w)) = trace w @ evs \<and> list_all P evs \<and>
        propagated (outcome (fst (and_then m f w))) evs \<and>
        (\<forall>p. FileWrite p \<notin> set evs \<longrightarrow> files (snd (and_then m f w)) p = files w p)"
  proof (cases r)
    case (Inl e)
    then show ?thesis using mw 1 by (intro exI [of _ "events_of m w"]) (simp add: and_then_def)
  next
    case (Inr x)
    have eq: "and_then m f w = f x w1" using mw Inr by (simp add: and_then_def)
    from run_okD [OF f [of x], where w = w1]
    have 2: "trace (snd (f x w1)) = trace w1 @ events_of (f x) w1" "list_all P (events_of (f x) w1)"
      "propagated (outcome (fst (f x w1))) (events_of (f x) w1)"
      "\<And>p. FileWrite p \<notin> set (events_of (f x) w1) \<Longrightarrow> files (snd (f x w1)) p = files w1 p"
      by simp_all
    have "propagated None (events_of m w)" using 1(3) Inr by simp
    then have "propagated (outcome (fst (f x w1))) (events_of m w @ events_of (f x) w1)"
      using 2(3) by (rule propagated_append)
    then show ?thesis
      unfolding eq using 1 2
      by (intro exI [of _ "events_of m w @ events_of (f x) w1"]) simp
  qed
qed

lemma run_ok_py_div: "P (Raised E_interpreter ZeroDivisionError) \<Longrightarrow> run_ok P (py_div a b)"
  by (simp add: py_div_def run_ok_ret run_ok_py_raise)

lemma run_ok_torch_load:
  "P (Call E_torch_load) \<Longrightarrow> (\<And>e. P (Raised E_torch_load e)) \<Longrightarrow> run_ok P (torch_load path)"
  by (rule run_okI)
     (auto simp: torch_load_def call_def propagated_def split: option.splits stored.splits)

lemma run_ok_case_prod: "(\<And>a b. run_ok P (f a b)) \<Longrightarrow> run_ok P (case_prod f x)"
  by (cases x) simp

lemma run_ok_if: "run_ok P m \<Longrightarrow> run_ok P m' \<Longrightarrow> run_ok P (if b then m else m')"
  by simp

lemma run_ok_case_option:
  "run_ok P m \<Longrightarrow> (\<And>x. run_ok P (f x)) \<Longrightarrow> run_ok P (case_option m f x)"
  by (cases x) simp_all

lemmas run_ok_intros = run_ok_and_then run_ok_call run_ok_call_rng run_ok_emit run_ok_ret
  run_ok_py_div run_ok_py_raise run_ok_case_prod run_ok_if run_ok_case_option run_ok_write_file
  run_ok_torch_load

lemma run_ok_post:
  "run_ok P m \<Longrightarrow> post m w (\<lambda>x w'. \<exists>evs. trace w' = trace w @ evs \<and> list_all P evs)"
  unfolding post_def
proof (intro allI impI)
  fix x w' assume ok: "run_ok P m" and mw: "m w = (Inr x, w')"
  from run_okD(1,2) [OF ok, where w = w] mw
  show "\<exists>evs. trace w' = trace w @ evs \<and> list_all P evs" by auto
qed

lemma events_of_run:
  "run_ok P m \<Longrightarrow> m w = (r, w') \<Longrightarrow> trace w' = trace w @ events_of m w"
  using run_okD(1) [of P m w] by simp

section \<open>StratifiedKFold\<close>

lemma filter_by_number:
  "distinct xs \<Longrightarrow>
   distinct (concat (map (\<lambda>i. filter (\<lambda>j. f j = i) xs) [0..<K])) \<and>
   set (concat (map (\<lambda>i. filter (\<lambda>j. f j = i) xs) [0..<K])) = {j \<in> set xs. f j < K}"
proof (induction K)
  case 0
  then show ?case by simp
next
  case (Suc K)
  from Suc have IH: "distinct (concat (map (\<lambda>i. filter (\<lambda>j. f j = i) xs) [0..<K]))"
    "set (concat (map (\<lambda>i. filter (\<lambda>j. f j = i) xs) [0..<K])) = {j \<in> set xs. f j < K}"
    by simp_all
  have "{j \<in> set xs. f j < K} \<inter> {j \<in> set xs. f j = K} = {}" by auto
  moreover have "{j \<in> set xs. f j < K} \<union> {j \<in> set xs. f j = K} = {j \<in> set xs. f j < Suc K}"
    by auto
  ultimately show ?case using IH Suc.prems by (simp del: upt_Suc add: upt_Suc_append)
qed

lemma folds_by_number_partition:
  assumes pos: "0 < k"
  shows "kfold_partition n (folds_by_number k n number)"
    and "length (folds_by_number k n number) = k"
proof -
  let ?folds = "folds_by_number k n number"
  have snd: "map snd ?folds = map (\<lambda>i. filter (\<lambda>j. number j mod k = i) [0..<n]) [0..<k]"
    by (simp add: folds_by_number_def comp_def)
  have "\<And>j. number j mod k < k" using pos by simp
  then have "{j \<in> set [0..<n]. number j mod k < k} = {0..<n}" by auto
  with filter_by_number [of "[0..<n]" "\<lambda>j. number j mod k" k]
  have "distinct (concat (map snd ?folds))" "set (concat (map snd ?folds)) = {0..<n}"
    unfolding snd by simp_all
  moreover have "list_all (\<lambda>(train_idx, test_idx). set train_idx \<inter> set test_idx = {}) ?folds"
    by (auto simp: folds_by_number_def list_all_iff)
  ultimately show "kfold_partition n ?folds" by (simp add: kfold_partition_def)
  show "length ?folds = k" by (simp add: folds_by_number_def)
qed

lemma split_partition:
  assumes split: "StratifiedKFold_split api k n y g = (Inr folds, g')"
    and pos: "0 < n_splits k"
  shows "kfold_partition n folds" and "length folds = n_splits k"
proof -
  from split obtain number where folds: "folds = folds_by_number (n_splits k) n number"
    by (auto simp: StratifiedKFold_split_def split: if_splits prod.splits sum.splits)
  show "kfold_partition n folds" "length folds = n_splits k"
    unfolding folds using pos by (rule folds_by_number_partition)+
qed

lemma kf_split_kf:
  "kf_split api kf n y = call E_StratifiedKFold_split (seeded_split api kf 42 n y)"
  by (simp add: kf_split_def kf_def)

lemma kf_split_result: "fst (kf_split api kf n y w) = seeded_split api kf 42 n y"
  by (simp add: kf_split_kf call_def split: sum.splits)

lemma seeded_split_partition:
  assumes "seeded_split api kf 42 n y = Inr folds"
  shows "kfold_partition n folds" and "length folds = num_folds"
proof -
  from assms obtain g' where
    "StratifiedKFold_split api kf n y (RandomState api 42) = (Inr folds, g')"
    unfolding seeded_split_def by (metis prod.collapse)
  moreover have "0 < n_splits kf" "n_splits kf = num_folds" by (simp_all add: kf_def num_folds_def)
  ultimately show "kfold_partition n folds" "length folds = num_folds"
    using split_partition [of api kf n y "RandomState api 42" folds g'] by simp_all
qed

section \<open>cross_val_predict\<close>

lemma fold_of_index:
  assumes "i \<in> set (concat (map snd folds))"
  obtains k tr te j where "k < length folds" "folds ! k = (tr, te)" "j < length te" "te ! j = i"
    "(k, tr, te) \<in> set (enumerate 0 folds)"
proof -
  from assms obtain p where p: "p \<in> set folds" "i \<in> set (snd p)" by auto
  then obtain k where k: "k < length folds" "folds ! k = p" by (auto simp: in_set_conv_nth)
  obtain tr te where pe: "p = (tr, te)" by (cases p) auto
  from p(2) obtain j where "j < length te" "te ! j = i" by (auto simp: pe in_set_conv_nth)
  moreover have "(k, tr, te) \<in> set (enumerate 0 folds)"
    using k pe by (simp add: in_set_enumerate_eq)
  ultimately show ?thesis using that k pe by blast
qed

lemma each_fold_Inr:
  "each_fold f xs = Inr rs \<Longrightarrow> length rs = length xs \<and> (\<forall>k < length xs. f (xs ! k) = Inr (rs ! k))"
proof (induction xs arbitrary: rs)
  case Nil
  then show ?case by simp
next
  case (Cons x xs)
  from Cons.prems obtain r rs' where r: "f x = Inr r" "each_fold f xs = Inr rs'" "rs = r # rs'"
    by (auto simp: pbind_def split: sum.splits)
  from Cons.IH [OF r(2)] show ?case using r(1,3) by (auto simp: nth_Cons split: nat.splits)
qed

lemma row_position_nth:
  "distinct zs \<Longrightarrow> q < length zs \<Longrightarrow> row_position zs (zs ! q) = q"
proof (induction zs arbitrary: q)
  case Nil
  then show ?case by simp
next
  case (Cons z zs)
  then show ?case by (cases q) (auto simp: row_position_def)
qed

lemma concat_nth:
  "k < length xs \<Longrightarrow> p < length (xs ! k) \<Longrightarrow>
   concat xs ! (length (concat (take k xs)) + p) = xs ! k ! p"
proof (induction xs arbitrary: k)
  case Nil
  then show ?case by simp
next
  case (Cons x xs)
  then show ?case by (cases k) (auto simp: nth_append)
qed

lemma concat_position_bound:
  "k < length xs \<Longrightarrow> p < length (xs ! k) \<Longrightarrow>
   length (concat (take k xs)) + p < length (concat xs)"
proof (induction xs arbitrary: k)
  case Nil
  then show ?case by simp
next
  case (Cons x xs)
  then show ?case by (cases k) auto
qed

lemma concat_take_length:
  "map length ys = map length xs \<Longrightarrow> length (concat (take k ys)) = length (concat (take k xs))"
  by (simp add: length_concat take_map [symmetric])

lemma concat_aligned:
  assumes len: "map length ys = map length xs" and d: "distinct (concat xs)"
    and k: "k < length xs" and p: "p < length (xs ! k)"
  shows "concat ys ! row_position (concat xs) (xs ! k ! p) = ys ! k ! p"
proof -
  let ?q = "length (concat (take k xs)) + p"
  have "row_position (concat xs) (concat xs ! ?q) = ?q"
    using d concat_position_bound [OF k p] by (rule row_position_nth)
  then have pos: "row_position (concat xs) (xs ! k ! p) = ?q"
    by (simp add: concat_nth [OF k p])
  have "length ys = length xs" using len by (metis length_map)
  moreover have "length (ys ! k) = length (xs ! k)"
    using len k by (metis length_map nth_map)
  ultimately have "concat ys ! (length (concat (take k ys)) + p) = ys ! k ! p"
    using k p by (intro concat_nth) simp_all
  then show ?thesis by (simp add: pos concat_take_length [OF len])
qed

lemma cross_val_predict_Inr:
  assumes cv: "cross_val_predict api params X y = Inr P"
  shows "length P = length (index X)"
    and "\<forall>j < length (index X). \<exists>tr te m rows p.
           (tr, te) \<in> set (folds_by_number 5 (length (index X)) (cv_numbers api y)) \<and>
           j \<notin> set tr \<and> p < length te \<and> te ! p = j \<and>
           fit api params (take_rows X tr) (map (\<lambda>q. y ! q) tr) = Inr m \<and>
           predict_proba api m (take_rows X te) = Inr rows \<and>
           length rows = length te \<and> P ! j = rows ! p"
proof -
  let ?n = "length (index X)"
  let ?folds = "folds_by_number 5 ?n (cv_numbers api y)"
  from cv obtain predictions where
    each: "each_fold (fit_and_predict api params X y) ?folds = Inr predictions"
    and P: "P = map (\<lambda>j. concat predictions ! row_position (concat (map snd ?folds)) j) [0..<?n]"
    by (auto simp: cross_val_predict_def pbind_def np_concatenate_def split: if_splits sum.splits)
  show "length P = ?n" by (simp add: P)
  note part = folds_by_number_partition [of 5 ?n "cv_numbers api y", simplified]
  from part(1) have d: "distinct (concat (map snd ?folds))"
    and cover: "set (concat (map snd ?folds)) = {0..<?n}"
    and dis: "\<forall>(tr, te) \<in> set ?folds. set tr \<inter> set te = {}"
    by (simp_all add: kfold_partition_def list_all_iff)
  note e = each_fold_Inr [OF each]
  have fp: "fit_and_predict api params X y (?folds ! k) = Inr (predictions ! k)"
    if "k < length ?folds" for k using e that by simp
  have len: "map length predictions = map length (map snd ?folds)"
  proof (rule nth_equalityI)
    show "length (map length predictions) = length (map length (map snd ?folds))"
      using e by simp
    fix k assume "k < length (map length predictions)"
    then have k: "k < length ?folds" using e by simp
    from fp [OF k] have "length (predictions ! k) = length (snd (?folds ! k))"
      by (auto simp: fit_and_predict_def pbind_def split: sum.splits if_splits)
    then show "map length predictions ! k = map length (map snd ?folds) ! k"
      using k e by simp
  qed
  show "\<forall>j < ?n. \<exists>tr te m rows p.
           (tr, te) \<in> set ?folds \<and> j \<notin> set tr \<and> p < length te \<and> te ! p = j \<and>
           fit api params (take_rows X tr) (map (\<lambda>q. y ! q) tr) = Inr m \<and>
           predict_proba api m (take_rows X te) = Inr rows \<and>
           length rows = length te \<and> P ! j = rows ! p"
  proof (intro allI impI)
    fix j assume j: "j < ?n"
    with cover have "j \<in> set (concat (map snd ?folds))" by simp
    then obtain k tr te p where k: "k < length ?folds" "?folds ! k = (tr, te)"
      and p: "p < length te" "te ! p = j"
      by (rule fold_of_index)
    from fp [OF k(1)] obtain m where m:
      "fit api params (take_rows X tr) (map (\<lambda>q. y ! q) tr) = Inr m"
      "predict_proba api m (take_rows X te) = Inr (predictions ! k)"
      "length (predictions ! k) = length te"
      unfolding k(2) by (auto simp: fit_and_predict_def pbind_def split: sum.splits if_splits)
    have mem: "(tr, te) \<in> set ?folds" using k by (metis nth_mem)
    with dis have "set tr \<inter> set te = {}" by blast
    moreover have "j \<in> set te" using p by auto
    ultimately have ntr: "j \<notin> set tr" by blast
    have k': "k < length (map snd ?folds)" "p < length (map snd ?folds ! k)"
      using k p by simp_all
    from concat_aligned [OF len d k'] have
      "concat predictions ! row_position (concat (map snd ?folds)) j = predictions ! k ! p"
      using k p by simp
    then have "P ! j = predictions ! k ! p" using j by (simp add: P)
    with mem ntr p m show "\<exists>tr te m rows p.
           (tr, te) \<in> set ?folds \<and> j \<notin> set tr \<and> p < length te \<and> te ! p = j \<and>
           fit api params (take_rows X tr) (map (\<lambda>q. y ! q) tr) = Inr m \<and>
           predict_proba api m (take_rows X te) = Inr rows \<and>
           length rows = length te \<and> P ! j = rows ! p"
      by blast
  qed
qed

section \<open>numpy\<close>

lemma fold_update_length [simp]:
  "length (fold (\<lambda>(i, v) b. b[i := v]) ps a) = length a"
  by (induction ps arbitrary: a) auto

lemma fold_update_other:
  "i \<notin> fst ` set ps \<Longrightarrow> fold (\<lambda>(i, v) b. b[i := v]) ps a ! i = a ! i"
  by (induction ps arbitrary: a) auto

lemma fold_update_nth:
  "distinct (map fst ps) \<Longrightarrow> (i, v) \<in> set ps \<Longrightarrow> i < length a \<Longrightarrow>
   fold (\<lambda>(i, v) b. b[i := v]) ps (a :: 'a list) ! i = v"
proof (induction ps arbitrary: a)
  case Nil
  then show ?case by simp
next
  case (Cons p ps)
  show ?case
  proof (cases "(i, v) = p")
    case True
    with Cons.prems have "i \<notin> fst ` set ps" by force
    then have "fold (\<lambda>(i, v) b. b[i := v]) ps (a[i := v]) ! i = a[i := v] ! i"
      by (rule fold_update_other)
    moreover have "a[i := v] ! i = v" using Cons.prems(3) by simp
    ultimately show ?thesis using True [symmetric] by simp
  next
    case False
    with Cons.prems have "(i, v) \<in> set ps" "distinct (map fst ps)" by auto
    then show ?thesis using Cons.IH [of "case p of (i, v) \<Rightarrow> a[i := v]"] Cons.prems(3)
      by (auto split: prod.splits)
  qed
qed

lemma np_broadcast_length: "np_broadcast k c vals = Inr rows \<Longrightarrow> length rows = k"
  by (auto simp: np_broadcast_def split: if_splits)

lemma np_setitem_Inr:
  assumes "np_setitem c a idx vals = Inr a'"
  shows "\<exists>rows. np_broadcast (length idx) c vals = Inr rows \<and> length a' = length a \<and>
           (\<forall>i. i \<notin> set idx \<longrightarrow> a' ! i = a ! i) \<and>
           (distinct idx \<longrightarrow> (\<forall>j < length idx. a' ! (idx ! j) = rows ! j))"
proof -
  from assms obtain rows where rows: "np_broadcast (length idx) c vals = Inr rows"
    and a': "a' = fold (\<lambda>(i, v) b. b[i := v]) (zip idx rows) a"
    and rng: "\<forall>i\<in>set idx. i < length a"
    by (fastforce simp: np_setitem_def pbind_def list_ex_iff not_le split: if_splits sum.splits)
  have len: "length rows = length idx" using rows by (rule np_broadcast_length)
  have 1: "length a' = length a" by (simp add: a')
  have 2: "a' ! i = a ! i" if "i \<notin> set idx" for i
    unfolding a' using that by (intro fold_update_other) (auto dest: set_zip_leftD)
  have 3: "a' ! (idx ! j) = rows ! j" if "distinct idx" "j < length idx" for j
    unfolding a'
  proof (rule fold_update_nth)
    show "distinct (map fst (zip idx rows))" using that len by simp
    show "(idx ! j, rows ! j) \<in> set (zip idx rows)"
      using that len by (auto simp: set_zip)
    show "idx ! j < length a" using rng that by simp
  qed
  show ?thesis using rows 1 2 3 by blast
qed

section \<open>The loops of train_image_classifier.ipynb\<close>

subsection \<open>Files and rows of the runs that end without an exception\<close>

lemma pred_probs_batches_files:
  "post (pred_probs_batches api ds m acc cs) w (\<lambda>_ w'. files w' = files w)"
  by (induction cs arbitrary: acc w) (auto simp: post_def[of "pred_probs_batches _ _ _ _ _"] intro: post_mono)

lemma features_batches_files:
  "post (features_batches api ds m acc cs) w (\<lambda>_ w'. files w' = files w)"
  by (induction cs arbitrary: acc w) (auto simp: post_def[of "features_batches _ _ _ _ _"] intro: post_mono)

lemma load_checkpoint_post:
  "post (load_checkpoint api C k) w (\<lambda>m w'. files w' = files w \<and>
     (\<exists>g g' m0 sd. create_model api model_name True C g = (Inr m0, g') \<and>
        files w (checkpoint_path k) = Some (Checkpoint sd) \<and> load_state_dict api m0 sd = Inr m))"
  by (auto simp: load_checkpoint_def)

lemma predict_folds_post:
  assumes "distinct (concat (map (\<lambda>e. snd (snd e)) efolds))"
  shows "post (predict_folds api ds C F features pp efolds) w (\<lambda>(features', pp') w'.
      files w' = files w \<and> length pp' = length pp \<and> length features' = length features \<and>
      (\<forall>i. i \<notin> set (concat (map (\<lambda>e. snd (snd e)) efolds)) \<longrightarrow> pp' ! i = pp ! i \<and> features' ! i = features ! i) \<and>
      fold_rows_ok api ds C F (files w) efolds pp' features')"
  using assms
proof (induction efolds arbitrary: features pp w)
  case Nil
  then show ?case by (simp add: fold_rows_ok_def)
next
  case (Cons x rest)
  obtain f tr te where x: "x = (f, tr, te)" by (cases x) auto
  from Cons.prems have dte: "distinct te" and drest: "distinct (concat (map (\<lambda>e. snd (snd e)) rest))"
    and disj: "set te \<inter> set (concat (map (\<lambda>e. snd (snd e)) rest)) = {}"
    by (auto simp: x)
  note IH = Cons.IH [OF drest]
  show ?case
    unfolding x predict_folds.simps
    apply (simp only: post_and_then post_call post_ndarray_setitem)
    apply (intro allI impI)
    apply (rule post_mono [OF post_char [OF load_checkpoint_post]])
    apply (rule post_mono [OF post_char [OF pred_probs_batches_files]])
    apply (intro allI impI)
    apply (rule post_mono [OF post_char [OF load_checkpoint_post]])
    apply (intro allI impI)
    apply (rule post_mono [OF post_char [OF features_batches_files]])
    apply (intro allI impI)
    apply (rule post_mono [OF IH])
    subgoal premises p for u m w1 parts w2 vals pp1 m1 w3 m2 fparts w4 fvals features1 r w5
    proof -
      obtain features' pp' where r: "r = (features', pp')" by (cases r) auto
      from p(2) obtain g g' m0 sd where
        sd: "create_model api model_name True C g = (Inr m0, g')"
            "files w (checkpoint_path (f + 1)) = Some (Checkpoint sd)"
            "load_state_dict api m0 sd = Inr m"
        and f1: "files w1 = files w" by auto
      from p(3) have f2: "files w2 = files w"
        and run: "pred_probs_batches api ds m [] (chunks batch_size te) w1 = (Inr parts, w2)"
        using f1 by simp_all
      from p(6) obtain h h' n0 sd1 where
        sd1: "create_model api model_name True C h = (Inr n0, h')"
             "files w (checkpoint_path 1) = Some (Checkpoint sd1)"
             "load_state_dict api n0 sd1 = Inr m1"
        and f3: "files w3 = files w" using f2 by auto
      from p(8) have f4: "files w4 = files w" using f3 by simp
      from p(8) obtain wa where
        frun: "features_batches api ds m2 [] (chunks batch_size te) wa = (Inr fparts, w4)"
        by blast
      from p(11) have post: "files w5 = files w" "length pp' = length pp1"
        "length features' = length features1"
        "\<And>i. i \<notin> set (concat (map (\<lambda>e. snd (snd e)) rest)) \<Longrightarrow>
           pp' ! i = pp1 ! i \<and> features' ! i = features1 ! i"
        "fold_rows_ok api ds C F (files w) rest pp' features'"
        using f4 by (simp_all add: r)
      from p(5) obtain rows where s1: "np_broadcast (length te) C vals = Inr rows"
        "length pp1 = length pp" "\<And>i. i \<notin> set te \<Longrightarrow> pp1 ! i = pp ! i"
        "\<And>j. distinct te \<Longrightarrow> j < length te \<Longrightarrow> pp1 ! (te ! j) = rows ! j"
        using np_setitem_Inr [of C pp te vals pp1] by blast
      from p(10) obtain frows where s2: "np_broadcast (length te) F fvals = Inr frows"
        "length features1 = length features" "\<And>i. i \<notin> set te \<Longrightarrow> features1 ! i = features ! i"
        "\<And>j. distinct te \<Longrightarrow> j < length te \<Longrightarrow> features1 ! (te ! j) = frows ! j"
        using np_setitem_Inr [of F features te fvals features1] by blast
      have here: "\<exists>sd sd1. files w (checkpoint_path (f + 1)) = Some (Checkpoint sd) \<and>
          files w (checkpoint_path 1) = Some (Checkpoint sd1) \<and>
          predicted_by api ds C sd te (te ! j) (pp' ! (te ! j)) \<and>
          extracted_by api ds C F sd1 te (te ! j) (features' ! (te ! j))" if j: "j < length te" for j
      proof -
        from j disj have "te ! j \<notin> set (concat (map (\<lambda>e. snd (snd e)) rest))"
          using nth_mem [OF j] by blast
        from post(4) [OF this] have "pp' ! (te ! j) = rows ! j" "features' ! (te ! j) = frows ! j"
          using s1(4) [OF dte j] s2(4) [OF dte j] by simp_all
        moreover have "predicted_by api ds C sd te (te ! j) (rows ! j)"
          unfolding predicted_by_def using sd run p(4) s1(1) j by blast
        moreover have "extracted_by api ds C F sd1 te (te ! j) (frows ! j)"
          unfolding extracted_by_def using sd1 p(7) frun p(9) s2(1) j by blast
        ultimately show ?thesis using sd(2) sd1(2) by simp
      qed
      have "fold_rows_ok api ds C F (files w) ((f, tr, te) # rest) pp' features'"
        using here post(5) by (simp add: fold_rows_ok_def)
      moreover have "pp' ! i = pp ! i \<and> features' ! i = features ! i"
        if "i \<notin> set (concat (map (\<lambda>e. snd (snd e)) ((f, tr, te) # rest)))" for i
        using that post(4) [of i] s1(3) [of i] s2(3) [of i] by simp
      ultimately show ?thesis
        using post(1-3) s1(2) s2(2) by (simp add: r)
    qed
    done
qed

lemma files_after_fold_refl: "files_after_fold api ds C I k F F"
  by (simp add: files_after_fold_def)

lemma files_after_fold_trans:
  "files_after_fold api ds C I k F F' \<Longrightarrow> files_after_fold api ds C I k F' F'' \<Longrightarrow>
   files_after_fold api ds C I k F F''"
  unfolding files_after_fold_def by metis

lemma files_after_fold_save:
  "trained_on api ds C I m \<Longrightarrow>
   files_after_fold api ds C I k F (F(checkpoint_path k \<mapsto> Checkpoint (state_dict api m)))"
  unfolding files_after_fold_def by auto

lemma subset_indices_subset: "subset_indices idx ps = Inr js \<Longrightarrow> set js \<subseteq> set idx"
  by (induction ps arbitrary: js) (auto simp: pbind_def split: if_splits sum.splits)

lemma train_batches_post:
  assumes "trained_on api ds C I m" "set train_idx \<subseteq> I"
  shows "post (train_batches api ds train_idx m loss bs) w
           (\<lambda>(m', l) w'. trained_on api ds C I m' \<and> files w' = files w)"
  using assms(1)
proof (induction bs arbitrary: m loss w)
  case Nil
  then show ?case by simp
next
  case (Cons ps rest)
  show ?case
    unfolding train_batches.simps
    apply (simp only: post_and_then post_call post_call_rng split_paired_all prod.case)
    apply (intro allI impI)
    subgoal premises p for batch ml g'
    proof -
      obtain m' l where ml: "ml = (m', l)" by (cases ml) auto
      from p(1) obtain js where js: "subset_indices train_idx ps = Inr js" "fetch ds js = Inr batch"
        by (auto simp: pbind_def split: sum.splits)
      with assms(2) have sub: "set js \<subseteq> I" using subset_indices_subset by blast
      have "trained_on api ds C I m'"
        using trained_on.stepped [OF Cons.prems sub js(2)] p(2) unfolding ml by blast
      from Cons.IH [OF this] show ?thesis
        unfolding ml prod.case by (rule post_mono) auto
    qed
    done
qed

lemma evaluate_batches_files:
  "post (evaluate_batches api ds m c t cs) w (\<lambda>_ w'. files w' = files w)"
  by (induction cs arbitrary: c t w) (auto simp: post_def[of "evaluate_batches _ _ _ _ _ _"] intro: post_mono)

lemma train_batches_rule:
  assumes "trained_on api ds C I m" "set train_idx \<subseteq> I"
    and "\<And>m' l w'. trained_on api ds C I m' \<Longrightarrow> files w' = files w \<Longrightarrow> Q (m', l) w'"
  shows "post (train_batches api ds train_idx m loss bs) w Q"
  by (rule post_mono [OF train_batches_post [OF assms(1,2)]]) (auto intro: assms(3))

lemma evaluate_batches_rule:
  assumes "\<And>r w'. files w' = files w \<Longrightarrow> Q r w'"
  shows "post (evaluate_batches api ds m c t cs) w Q"
  by (rule post_mono [OF evaluate_batches_files]) (auto intro: assms)

lemma files_after_fold_step:
  "files_after_fold api ds C I k F G \<Longrightarrow> trained_on api ds C I m \<Longrightarrow>
   G' = G(checkpoint_path k \<mapsto> Checkpoint (state_dict api m)) \<Longrightarrow>
   files_after_fold api ds C I k F G'"
  using files_after_fold_trans [of api ds C I k F G G'] files_after_fold_save [of api ds C I m k G]
  by simp

lemma epochs_loop_post:
  assumes sub: "set train_idx \<subseteq> I"
  shows "trained_on api ds C I m \<Longrightarrow> files_after_fold api ds C I (Suc f) F (files w) \<Longrightarrow>
     post (epochs_loop api ds f train_idx test_idx m bv be loss es) w
       (\<lambda>_ w'. files_after_fold api ds C I (Suc f) F (files w'))"
proof (induction es arbitrary: m bv be loss w)
  case Nil
  then show ?case by simp
next
  case (Cons epoch rest)
  show ?case
    apply (simp add: py_print_def del: post_and_then)
    apply (simp only: post_and_then py_print_def post_emit post_call_rng)
    apply (intro allI impI)
    apply (rule train_batches_rule [OF Cons.prems(1) sub])
    apply (simp add: py_print_def split: option.split)
    apply (intro allI impI)
    apply (rule evaluate_batches_rule)
    apply (simp add: py_print_def torch_save_def split: prod.split)
    apply (intro allI impI conjI)
    subgoal by (rule Cons.IH, assumption, rule files_after_fold_step [OF Cons.prems(2)], assumption, simp add: fun_eq_iff)
    subgoal using Cons.prems(2) by simp
    subgoal by (rule Cons.IH, assumption, rule files_after_fold_step [OF Cons.prems(2)], assumption, simp add: fun_eq_iff)
    subgoal using Cons.prems(2) by (intro Cons.IH) auto
    done
qed

lemma checkpoint_path_inj [simp]: "checkpoint_path a = checkpoint_path b \<longleftrightarrow> a = b"
  by (simp add: checkpoint_path_def)

lemma enumerate_fst_distinct: "distinct (map fst (enumerate n xs))"
  by (simp add: enumerate_eq_zip)

lemma enumerate_snd2: "map (\<lambda>e. snd (snd e)) (enumerate n xs) = map snd xs"
  by (induction xs arbitrary: n) auto

lemma files_after_training_Nil: "files_after_training api ds C [] F F"
  by (simp add: files_after_training_def)

lemma files_after_training_Cons:
  assumes nf: "\<And>f' tr' te'. (f', tr', te') \<in> set rest \<Longrightarrow> f' \<noteq> f"
    and "files_after_fold api ds C (set tr) (Suc f) F F1"
    and "files_after_training api ds C rest F1 F2"
  shows "files_after_training api ds C ((f, tr, te) # rest) F F2"
proof -
  have "\<forall>(f', tr', te') \<in> set rest. checkpoint_path (Suc f) \<noteq> checkpoint_path (Suc f')"
    using nf by fastforce
  with assms(3) have same: "F2 (checkpoint_path (Suc f)) = F1 (checkpoint_path (Suc f))"
    unfolding files_after_training_def by blast
  have other: "F1 (checkpoint_path (Suc f')) = F (checkpoint_path (Suc f'))"
    if "(f', tr', te') \<in> set rest" for f' tr' te'
    using nf [OF that] assms(2) unfolding files_after_fold_def by simp
  show ?thesis
    unfolding files_after_training_def
  proof (intro conjI ballI allI impI)
    fix x assume "x \<in> set ((f, tr, te) # rest)"
    then consider "x = (f, tr, te)" | "x \<in> set rest" by auto
    then show "case x of (f, tr, te) \<Rightarrow>
        F2 (checkpoint_path (Suc f)) = F (checkpoint_path (Suc f)) \<or>
        (\<exists>m. F2 (checkpoint_path (Suc f)) = Some (Checkpoint (state_dict api m)) \<and>
             trained_on api ds C (set tr) m)"
    proof cases
      case 1
      then show ?thesis using same assms(2) unfolding files_after_fold_def by auto
    next
      case 2
      obtain f' tr' te' where x: "x = (f', tr', te')" by (cases x) auto
      from 2 assms(3) have "F2 (checkpoint_path (Suc f')) = F1 (checkpoint_path (Suc f')) \<or>
        (\<exists>m. F2 (checkpoint_path (Suc f')) = Some (Checkpoint (state_dict api m)) \<and>
             trained_on api ds C (set tr') m)"
        unfolding files_after_training_def x by blast
      then show ?thesis using other [of f' tr' te'] 2 unfolding x by auto
    qed
  next
    fix p assume p: "\<forall>(f, tr, te) \<in> set ((f, tr, te) # rest). p \<noteq> checkpoint_path (Suc f)"
    then have "F2 p = F1 p" using assms(3) unfolding files_after_training_def by simp
    moreover have "F1 p = F p" using p assms(2) unfolding files_after_fold_def by simp
    ultimately show "F2 p = F p" by simp
  qed
qed

lemma folds_loop_post:
  assumes "distinct (map fst efolds)"
  shows "post (folds_loop api ds C loss efolds) w
           (\<lambda>_ w'. files_after_training api ds C efolds (files w) (files w'))"
  using assms
proof (induction efolds arbitrary: loss w)
  case Nil
  then show ?case by (simp add: files_after_training_Nil)
next
  case (Cons x rest)
  obtain f tr te where x: "x = (f, tr, te)" by (cases x) auto
  from Cons.prems have dr: "distinct (map fst rest)"
    and nf: "\<And>f' tr' te'. (f', tr', te') \<in> set rest \<Longrightarrow> f' \<noteq> f"
    by (force simp: x)+
  show ?case
    unfolding x
    apply (simp add: py_print_def)
    apply (intro allI impI)
    subgoal premises p for m g'
    proof -
      have tr: "trained_on api ds C (set tr) m"
        using p(3) by (rule trained_on.created)
      note e = epochs_loop_post [OF subset_refl tr files_after_fold_refl]
      show ?thesis
        apply (rule post_mono [OF e])
        apply (rule post_mono [OF Cons.IH [OF dr]])
        apply simp
        apply (rule files_after_training_Cons [OF nf]; assumption)
        done
    qed
    done
qed

lemma paths_differ [simp]:
  "features_path \<noteq> pred_probs_path" "checkpoint_path k \<noteq> features_path"
  "checkpoint_path k \<noteq> pred_probs_path"
  by (simp_all add: features_path_def pred_probs_path_def checkpoint_path_def)

lemma predict_folds_rule:
  assumes "distinct (concat (map (\<lambda>e. snd (snd e)) efolds))"
    and "\<And>features' pp' w'. files w' = files w \<Longrightarrow> length pp' = length pp \<Longrightarrow>
           length features' = length features \<Longrightarrow>
           fold_rows_ok api ds C F (files w) efolds pp' features' \<Longrightarrow> Q (features', pp') w'"
  shows "post (predict_folds api ds C F features pp efolds) w Q"
  by (rule post_mono [OF predict_folds_post [OF assms(1)]]) (auto intro: assms(2))

lemma cell_12_post:
  assumes split: "seeded_split api kf 42 (length (targets ds)) labels = Inr folds"
  shows "post (cell_12 api ds labels C) w (\<lambda>(features, pp) w'.
      \<exists>NF. files w' = (files w)(features_path \<mapsto> Npy features, pred_probs_path \<mapsto> Npy pp) \<and>
      length pp = length (targets ds) \<and> length features = length (targets ds) \<and>
      fold_rows_ok api ds C NF (files w) (enumerate 0 folds) pp features)"
proof -
  have d: "distinct (concat (map snd folds))"
    using seeded_split_partition(1) [OF split] by (simp add: kfold_partition_def)
  show ?thesis
    unfolding cell_12_def
    apply (simp add: kf_split_kf split np_save_def)
    apply (rule post_mono [OF load_checkpoint_post])
    apply (rule predict_folds_rule)
     apply (simp add: enumerate_snd2 d)
    apply (simp add: np_zeros_def)
    apply blast
    done
qed

lemma notebook_post:
  assumes ds: "ImageFolder api (DATA_DIR @ ''/caltech256-subset'') (transform vapi) = Inr ds"
    and split: "seeded_split api kf 42 (length (targets ds)) (targets ds) = Inr folds"
  shows "post (train_image_classifier vapi api) w0 (\<lambda>(features, pp) w1.
      \<exists>G NF. files_after_training api ds (length (classes ds)) (enumerate 0 folds) (files w0) G \<and>
          files w1 = G(features_path \<mapsto> Npy features, pred_probs_path \<mapsto> Npy pp) \<and>
          length pp = length (targets ds) \<and> length features = length (targets ds) \<and>
          fold_rows_ok api ds (length (classes ds)) NF G (enumerate 0 folds) pp features)"
  unfolding train_image_classifier_def cell_4_def cell_5_def cell_10_def
  apply (simp add: ds kf_split_kf split shell_def)
  apply (rule post_mono [OF folds_loop_post [OF enumerate_fst_distinct]])
  apply (rule post_mono [OF cell_12_post [OF split]])
  apply auto
  done

lemma post_const: "P \<Longrightarrow> post m w (\<lambda>x w'. P)"
  by (simp add: post_def)

lemma notebook_inputs:
  "post (train_image_classifier vapi api) w0 (\<lambda>r w1.
     \<exists>ds folds. ImageFolder api (DATA_DIR @ ''/caltech256-subset'') (transform vapi) = Inr ds \<and>
       seeded_split api kf 42 (length (targets ds)) (targets ds) = Inr folds)"
  unfolding train_image_classifier_def cell_4_def cell_5_def cell_10_def
  apply (simp add: kf_split_kf shell_def)
  apply (simp add: post_def)
  done

lemma distinct_count_list: "distinct xs \<Longrightarrow> x \<in> set xs \<Longrightarrow> count_list xs x = 1"
  by (induction xs) auto


subsection \<open>The events of every run\<close>

lemma training_event_simps [simp]:
  "training_event (Call n) \<longleftrightarrow>
     n \<noteq> E_find_label_issues \<and> n \<noteq> E_CleanLearning_fit \<and> n \<noteq> E_CleanLearning_get_label_issues"
  "training_event (Raised n e)"
  "training_event (Shell c)"
  "training_event (FileWrite p) \<longleftrightarrow> p = features_path \<or> p = pred_probs_path \<or> is_checkpoint_path p"
  "\<not> training_event (Assign name idx)"
  by (simp_all add: training_event_def image_event_def reports_baseline_accuracy_def
        reports_cleaned_accuracy_def)

lemma training_event_Print:
  "s \<noteq> ''Accuracy with original data: '' \<Longrightarrow> s \<noteq> ''Base model accuracy = '' \<Longrightarrow>
   s \<noteq> ''Accuracy with errors found by cleanlab removed: '' \<Longrightarrow>
   s \<noteq> ''CleanLearning model accuracy = '' \<Longrightarrow> training_event (Print (Txt s # items))"
  by (simp add: training_event_def image_event_def reports_baseline_accuracy_def
        reports_cleaned_accuracy_def)

lemma train_batches_run_ok: "run_ok training_event (train_batches api ds tr m l bs)"
  by (induction bs arbitrary: m l) (auto intro!: run_ok_intros)

lemma evaluate_batches_run_ok: "run_ok training_event (evaluate_batches api ds m c t bs)"
  by (induction bs arbitrary: c t) (auto intro!: run_ok_intros)

lemma pred_probs_batches_run_ok: "run_ok training_event (pred_probs_batches api ds m acc bs)"
  by (induction bs arbitrary: acc) (auto intro!: run_ok_intros)

lemma features_batches_run_ok: "run_ok training_event (features_batches api ds m acc bs)"
  by (induction bs arbitrary: acc) (auto intro!: run_ok_intros)

lemma torch_save_run_ok: "run_ok training_event (torch_save sd (checkpoint_path k))"
  unfolding torch_save_def by (intro run_ok_intros; auto simp: is_checkpoint_path_def)

lemma epochs_loop_run_ok:
  "run_ok training_event (epochs_loop api ds f tr te m bva be l es)"
proof (induction es arbitrary: m bva be l)
  case Nil
  show ?case by (simp add: run_ok_ret)
next
  case (Cons epoch rest)
  show ?case
    unfolding epochs_loop.simps py_print_def
    by (intro run_ok_intros train_batches_run_ok evaluate_batches_run_ok torch_save_run_ok Cons.IH
          training_event_Print; simp)
qed

lemma folds_loop_run_ok: "run_ok training_event (folds_loop api ds C l efolds)"
proof (induction efolds arbitrary: l)
  case Nil
  show ?case by (simp add: run_ok_ret)
next
  case (Cons a rest)
  obtain f tr te where a: "a = (f, tr, te)" by (cases a)
  show ?case
    unfolding a folds_loop.simps py_print_def
    by (intro run_ok_intros epochs_loop_run_ok Cons.IH training_event_Print; simp)
qed

lemma kf_split_run_ok: "run_ok training_event (kf_split api k n y)"
  unfolding kf_split_def by (intro run_ok_intros; simp)

lemma load_checkpoint_run_ok: "run_ok training_event (load_checkpoint api C k)"
  unfolding load_checkpoint_def by (intro run_ok_intros; simp)

lemma cells_4_to_10_run_ok:
  "run_ok training_event
     (and_then cell_4 (\<lambda>_. and_then (cell_5 vapi api) (\<lambda>ds.
        cell_10 api ds (targets ds) (length (classes ds)))))"
  unfolding cell_4_def cell_5_def cell_10_def shell_def
  by (intro run_ok_intros folds_loop_run_ok kf_split_run_ok; simp)

lemma training_is_image_event: "training_event ev \<Longrightarrow> image_event ev"
  by (simp add: training_event_def)

lemma ndarray_setitem_run_ok: "run_ok image_event (ndarray_setitem name c a idx vals)"
  unfolding ndarray_setitem_def
  by (intro run_ok_intros; simp add: image_event_def reports_baseline_accuracy_def
        reports_cleaned_accuracy_def)

lemmas image_parts_run_ok =
  load_checkpoint_run_ok [THEN run_ok_mono, OF training_is_image_event]
  pred_probs_batches_run_ok [THEN run_ok_mono, OF training_is_image_event]
  features_batches_run_ok [THEN run_ok_mono, OF training_is_image_event]
  folds_loop_run_ok [THEN run_ok_mono, OF training_is_image_event]
  kf_split_run_ok [THEN run_ok_mono, OF training_is_image_event]

lemma image_event_simps [simp]:
  "image_event (Call n) \<longleftrightarrow>
     n \<noteq> E_find_label_issues \<and> n \<noteq> E_CleanLearning_fit \<and> n \<noteq> E_CleanLearning_get_label_issues"
  "image_event (Raised n e)"
  "image_event (Shell c)"
  "image_event (FileWrite p) \<longleftrightarrow> p = features_path \<or> p = pred_probs_path \<or> is_checkpoint_path p"
  "image_event (Assign name idx)"
  by (simp_all add: image_event_def reports_baseline_accuracy_def reports_cleaned_accuracy_def)

lemma predict_folds_run_ok: "run_ok image_event (predict_folds api ds C nf fe pp efolds)"
proof (induction efolds arbitrary: fe pp)
  case Nil
  show ?case by (simp add: run_ok_ret)
next
  case (Cons a rest)
  obtain f tr te where a: "a = (f, tr, te)" by (cases a)
  show ?case
    unfolding a predict_folds.simps
    by (intro run_ok_intros image_parts_run_ok ndarray_setitem_run_ok Cons.IH; simp)
qed

lemma image_run_ok: "run_ok image_event (train_image_classifier vapi api)"
  unfolding train_image_classifier_def cell_4_def cell_5_def cell_10_def cell_12_def np_save_def
    shell_def
  by (intro run_ok_intros image_parts_run_ok predict_folds_run_ok; simp)

lemma tabular_run_ok: "run_ok (\<lambda>ev. \<not> is_write ev) (find_tabular_errors api)"
  unfolding find_tabular_errors_def tabular_cell_4_def tabular_cell_6_def tabular_cell_9_def
    tabular_cell_12_def tabular_cell_14_def tabular_cell_17_def encode_column_def
    categorical_column_def py_print_def display_def shell_def
  by (intro run_ok_intros; simp)

lemma transformer_run_ok: "run_ok (\<lambda>ev. \<not> is_write ev) (transformer_sklearn api)"
  unfolding transformer_sklearn_def transformer_cells_7_12_def transformer_cells_17_27_def
    transformer_cells_30_41_def print_example_def py_print_def display_def shell_def
  by (intro run_ok_intros; simp)

subsection \<open>The rows that a run assigns to\<close>

lemma assigned_rows_append [simp]:
  "assigned_rows name (evs @ evs') = assigned_rows name evs @ assigned_rows name evs'"
  by (simp add: assigned_rows_def)

lemma assigned_rows_simps [simp]:
  "assigned_rows name [] = []"
  "assigned_rows name (ev # evs) = rows_of name ev @ assigned_rows name evs"
  by (simp_all add: assigned_rows_def)

lemma assigned_rows_quiet: "list_all training_event evs \<Longrightarrow> assigned_rows name evs = []"
proof (induction evs)
  case Nil
  show ?case by simp
next
  case (Cons ev evs)
  then show ?case by (cases ev) simp_all
qed

lemma quiet_rows:
  assumes "run_ok training_event m"
  shows "post m w (\<lambda>x w'. assigned_rows name (trace w') = assigned_rows name (trace w))"
  by (rule post_mono [OF run_ok_post [OF assms]]) (auto simp: assigned_rows_quiet)

lemma predict_folds_rows:
  assumes name: "name = ''pred_probs'' \<or> name = ''features''"
  shows "post (predict_folds api ds C F features pp efolds) w (\<lambda>r w'.
     assigned_rows name (trace w') =
       assigned_rows name (trace w) @ concat (map (\<lambda>e. snd (snd e)) efolds))"
proof (induction efolds arbitrary: features pp w)
  case Nil
  show ?case by simp
next
  case (Cons x rest)
  obtain f tr te where x: "x = (f, tr, te)" by (cases x) auto
  show ?case
    unfolding x predict_folds.simps
    apply (simp only: post_and_then post_call post_ndarray_setitem)
    apply (intro allI impI)
    apply (rule post_mono [OF quiet_rows [OF load_checkpoint_run_ok, of _ _ _ _ name]])
    apply (rule post_mono [OF quiet_rows [OF pred_probs_batches_run_ok, of _ _ _ _ _ _ name]])
    apply (intro allI impI)
    apply (rule post_mono [OF quiet_rows [OF load_checkpoint_run_ok, of _ _ _ _ name]])
    apply (intro allI impI)
    apply (rule post_mono [OF quiet_rows [OF features_batches_run_ok, of _ _ _ _ _ _ name]])
    apply (intro allI impI)
    apply (rule post_mono [OF Cons.IH])
    using name apply auto
    done
qed

lemma notebook_rows:
  assumes ds: "ImageFolder api (DATA_DIR @ ''/caltech256-subset'') (transform vapi) = Inr ds"
    and split: "seeded_split api kf 42 (length (targets ds)) (targets ds) = Inr folds"
    and name: "name = ''pred_probs'' \<or> name = ''features''"
  shows "post (train_image_classifier vapi api) w0 (\<lambda>r w1.
     assigned_rows name (trace w1) = assigned_rows name (trace w0) @ concat (map snd folds))"
proof -
  have *: "train_image_classifier vapi api =
     and_then (and_then cell_4 (\<lambda>_. and_then (cell_5 vapi api) (\<lambda>ds.
        and_then (cell_10 api ds (targets ds) (length (classes ds))) (\<lambda>_. ret ds))))
       (\<lambda>ds. cell_12 api ds (targets ds) (length (classes ds)))"
    by (auto simp: train_image_classifier_def and_then_def ret_def fun_eq_iff
          split: prod.splits sum.splits)
  have quiet: "run_ok training_event (and_then cell_4 (\<lambda>_. and_then (cell_5 vapi api) (\<lambda>ds.
        and_then (cell_10 api ds (targets ds) (length (classes ds))) (\<lambda>_. ret ds))))"
    unfolding cell_4_def cell_5_def cell_10_def shell_def
    by (intro run_ok_intros folds_loop_run_ok kf_split_run_ok; simp)
  have ds': "post (and_then cell_4 (\<lambda>_. and_then (cell_5 vapi api) (\<lambda>ds.
        and_then (cell_10 api ds (targets ds) (length (classes ds))) (\<lambda>_. ret ds)))) w0
      (\<lambda>x w'. x = ds)"
    unfolding cell_4_def cell_5_def cell_10_def
    by (simp add: ds shell_def) (simp add: post_def)
  show ?thesis
    unfolding *
    apply (rule post_bind_rule [OF post_conj [OF quiet_rows [OF quiet, of w0 name] ds']])
    apply (simp add: cell_12_def kf_split_kf split np_save_def)
    apply (rule post_mono [OF quiet_rows [OF load_checkpoint_run_ok, of _ _ _ _ name]])
    apply (rule post_mono [OF predict_folds_rows [OF name]])
    apply (simp add: enumerate_snd2 split: prod.splits)
    done
qed

section \<open>Evaluating the small runs\<close>

lemmas nb_defs = ret_def emit_def and_then_def py_raise_def call_def call_rng_def py_print_def
  display_def shell_def write_file_def py_div_def torch_save_def torch_load_def np_save_def
  pbind_def ndarray_setitem_def

lemmas image_defs = train_image_classifier_def cell_4_def cell_5_def cell_10_def cell_12_def
  load_checkpoint_def getitem_def chunks.simps batch_size_def num_epochs_def patience_def
  num_folds_def learning_rate_def np_zeros_def np_concatenate_def np_setitem_def np_broadcast_def
  widen_def DataLoader_def checkpoint_path_def features_path_def pred_probs_path_def

lemma demo_torch_sel:
  "ImageFolder demo_torch = (\<lambda>_ _. Inr demo_dataset)"
  "RandomState demo_torch = (\<lambda>_. ())"
  "test_folds demo_torch = (\<lambda>_ _ g. (Inr demo_number, g))"
  "create_model demo_torch = (\<lambda>_ _ _ g. (Inr (0, True), g))"
  "num_features demo_torch = (\<lambda>_. 1)"
  "RandomSampler demo_torch = (\<lambda>n g. (rev [0..<n], g))"
  "train_step demo_torch = (\<lambda>m _ batch g. (Inr ((fst m + length batch, snd m), 1 / 2), g))"
  "forward demo_torch = (\<lambda>m ts. Inr (map (\<lambda>t. if snd m then [of_nat (fst m), of_nat t] else [of_nat t]) ts))"
  "torch_max demo_torch = (\<lambda>rows. Inr (map (\<lambda>_. 0) rows))"
  "eq_sum demo_torch = (\<lambda>p t. Inr (length (filter (\<lambda>(a, b). a = b) (zip p t))))"
  "softmax demo_torch = Inr"
  "state_dict demo_torch = (\<lambda>m. m)"
  "load_state_dict demo_torch = (\<lambda>_ sd. Inr sd)"
  "reset_classifier demo_torch = (\<lambda>m _. Inr (fst m, False))"
  by (simp_all add: demo_torch_def)

lemma demo_dataset_sel:
  "classes demo_dataset = [''cat'', ''dog'']"
  "targets demo_dataset = replicate 37 0"
  "load_item demo_dataset = Inr"
  by (simp_all add: demo_dataset_def)

lemma count_list_replicate: "count_list (replicate n x) y = (if x = y then n else 0)"
  by (induction n) auto

lemma remdups_replicate: "remdups (replicate n x) = (if n = 0 then [] else [x])"
  by (induction n) auto

lemma demo_split: "seeded_split demo_torch kf 42 37 (replicate 37 0) = Inr demo_folds"
  by (simp add: seeded_split_def StratifiedKFold_split_def split_refused_def folds_by_number_def
        demo_torch_sel kf_def num_folds_def demo_number_def demo_folds_def upt_conv_Cons
        count_list_replicate remdups_replicate)

lemma zero_rows: "replicate 37 (r :: rat list) =
    [r, r, r, r, r, r, r, r, r, r, r, r, r, r, r, r, r, r, r, r, r, r, r, r, r, r, r, r, r, r, r, r, r,
     r, r, r, r]"
  by (simp add: numeral_eq_Suc)

lemmas demo_eval = zero_rows nb_defs image_defs demo_torch_sel demo_dataset_sel
  demo_world_def enumerate_eq_zip upt_conv_Cons kf_split_kf demo_split demo_folds_def

lemma demo_run: "fst (train_image_classifier demo_vision demo_torch demo_world) =
  Inr (map (\<lambda>i. [of_nat i]) [0..<37], map (\<lambda>i. [if i < 33 then 4 else 36, of_nat i]) [0..<37])"
  by (simp add: demo_eval)

lemma demo_ImageFolder:
  "ImageFolder demo_torch (DATA_DIR @ ''/caltech256-subset'') (transform demo_vision) = Inr demo_dataset"
  by (simp add: demo_torch_sel)

section \<open>Properties of train_image_classifier.ipynb\<close>

subsection \<open>Preprocessing\<close>

text \<open>
  Claim C10.  \<open>convert_to_rgb\<close> returns \<open>img.convert('RGB')\<close> exactly for the images whose
  mode is \<open>'L'\<close>; an image of any other mode is returned as it is.  In particular an
  image of mode \<open>'P'\<close> or \<open>'RGBA'\<close> reaches the resize/crop/tensor steps of the transform
  unconverted.
\<close>

theorem convert_to_rgb_only_mode_L:
  "(mode img = ''L'' \<longrightarrow> convert_to_rgb api img = pil_convert api img ''RGB'') \<and>
   (mode img \<noteq> ''L'' \<longrightarrow> convert_to_rgb api img = Inr img) \<and>
   (mode img = ''P'' \<or> mode img = ''RGBA'' \<longrightarrow> transform api img = tensor_steps api img)"
  by (auto simp: convert_to_rgb_def transform_def pbind_def)

theorem convert_to_rgb_only_mode_L_witness:
  "convert_to_rgb
      \<lparr>pil_convert = (\<lambda>i m. Inr (i\<lparr>mode := m\<rparr>)), Resize = (\<lambda>_. Inr), CenterCrop = (\<lambda>_. Inr),
       ToTensor = (\<lambda>i. Inr (pixels i)), Normalize = (\<lambda>_ _. Inr)\<rparr>
      \<lparr>mode = ''L'', pixels = (7::nat)\<rparr> = Inr \<lparr>mode = ''RGB'', pixels = 7\<rparr> \<and>
   convert_to_rgb
      \<lparr>pil_convert = (\<lambda>i m. Inr (i\<lparr>mode := m\<rparr>)), Resize = (\<lambda>_. Inr), CenterCrop = (\<lambda>_. Inr),
       ToTensor = (\<lambda>i. Inr (pixels i)), Normalize = (\<lambda>_ _. Inr)\<rparr>
      \<lparr>mode = ''RGBA'', pixels = (7::nat)\<rparr> = Inr \<lparr>mode = ''RGBA'', pixels = 7\<rparr> \<and>
   transform
      \<lparr>pil_convert = (\<lambda>i m. Inr (i\<lparr>mode := m\<rparr>)), Resize = (\<lambda>_. Inr), CenterCrop = (\<lambda>_. Inr),
       ToTensor = (\<lambda>i. Inr (pixels i)), Normalize = (\<lambda>_ _. Inr)\<rparr>
      \<lparr>mode = ''P'', pixels = (7::nat)\<rparr> = Inr 7"
  using convert_to_rgb_only_mode_L
      [of "\<lparr>mode = ''L'', pixels = (7::nat)\<rparr>"
          "\<lparr>pil_convert = (\<lambda>i m. Inr (i\<lparr>mode := m\<rparr>)), Resize = (\<lambda>_. Inr), CenterCrop = (\<lambda>_. Inr),
            ToTensor = (\<lambda>i. Inr (pixels i)), Normalize = (\<lambda>_ _. Inr)\<rparr>"]
    convert_to_rgb_only_mode_L
      [of "\<lparr>mode = ''RGBA'', pixels = (7::nat)\<rparr>"
          "\<lparr>pil_convert = (\<lambda>i m. Inr (i\<lparr>mode := m\<rparr>)), Resize = (\<lambda>_. Inr), CenterCrop = (\<lambda>_. Inr),
            ToTensor = (\<lambda>i. Inr (pixels i)), Normalize = (\<lambda>_ _. Inr)\<rparr>"]
    convert_to_rgb_only_mode_L
      [of "\<lparr>mode = ''P'', pixels = (7::nat)\<rparr>"
          "\<lparr>pil_convert = (\<lambda>i m. Inr (i\<lparr>mode := m\<rparr>)), Resize = (\<lambda>_. Inr), CenterCrop = (\<lambda>_. Inr),
            ToTensor = (\<lambda>i. Inr (pixels i)), Normalize = (\<lambda>_ _. Inr)\<rparr>"]
  by (simp add: tensor_steps_def pbind_def)

subsection \<open>The arrays that cell 12 saves\<close>

text \<open>
  Claim C8.  In every run of the image notebook that reaches its end:
  \<^item> \<open>kf.split(dataset, labels)\<close> gives the same folds in whatever state it is called (the
    splitter was built with the seed 42, so every call starts from a generator of its
    own), in particular in cell 10 and in cell 12;
  \<^item> there are \<open>num_folds\<close> folds, their held-out index arrays are pairwise disjoint and
    cover every index of the dataset, and no fold trains on an index it holds out;
  \<^item> the run assigns to every row of \<open>pred_probs\<close> and to every row of \<open>features\<close> exactly
    once;
  \<^item> the arrays that \<open>np.save\<close> writes have a row for every sample, and row \<open>i\<close> is the model
    output computed for sample \<open>i\<close> in the fold that holds \<open>i\<close> out (from that fold's
    checkpoint for \<open>pred_probs\<close>, from the checkpoint of fold 1 for \<open>features\<close>), not what
    \<open>np.zeros\<close> put there.
\<close>

theorem every_row_stored_once:
  assumes run: "train_image_classifier vapi api w0 = (Inr (features, probs), w1)"
  shows "\<exists>ds folds nf.
     ImageFolder api (DATA_DIR @ ''/caltech256-subset'') (transform vapi) = Inr ds \<and>
     (\<forall>w :: ('sd stored, 'g) world.
        fst (kf_split api kf (length (targets ds)) (targets ds) w) = Inr folds) \<and>
     length folds = num_folds \<and>
     kfold_partition (length (targets ds)) folds \<and>
     files w1 features_path = Some (Npy features) \<and>
     files w1 pred_probs_path = Some (Npy probs) \<and>
     length features = length (targets ds) \<and>
     length probs = length (targets ds) \<and>
     (\<forall>i < length (targets ds).
        count_list (assigned_rows ''pred_probs'' (events_of (train_image_classifier vapi api) w0)) i = 1 \<and>
        count_list (assigned_rows ''features'' (events_of (train_image_classifier vapi api) w0)) i = 1 \<and>
        (\<exists>k tr te sd sd1.
           k < length folds \<and> folds ! k = (tr, te) \<and> i \<in> set te \<and>
           files w1 (checkpoint_path (k + 1)) = Some (Checkpoint sd) \<and>
           files w1 (checkpoint_path 1) = Some (Checkpoint sd1) \<and>
           predicted_by api ds (length (classes ds)) sd te i (probs ! i) \<and>
           extracted_by api ds (length (classes ds)) nf sd1 te i (features ! i)))"
proof -
  from postD [OF notebook_inputs run] obtain ds folds where
    ds: "ImageFolder api (DATA_DIR @ ''/caltech256-subset'') (transform vapi) = Inr ds"
    and split: "seeded_split api kf 42 (length (targets ds)) (targets ds) = Inr folds"
    by blast
  note part = seeded_split_partition [OF split]
  from part(1) have d: "distinct (concat (map snd folds))"
    and cover: "set (concat (map snd folds)) = {0..<length (targets ds)}"
    by (simp_all add: kfold_partition_def)
  from postD [OF notebook_post [OF ds split] run]
  obtain G nf where
    w1: "files w1 = G(features_path \<mapsto> Npy features, pred_probs_path \<mapsto> Npy probs)"
    and len: "length probs = length (targets ds)" "length features = length (targets ds)"
    and rows: "fold_rows_ok api ds (length (classes ds)) nf G (enumerate 0 folds) probs features"
    by auto
  have ck: "files w1 (checkpoint_path k) = G (checkpoint_path k)" for k
    by (simp add: w1)
  have tr: "trace w1 = trace w0 @ events_of (train_image_classifier vapi api) w0"
    using image_run_ok run by (rule events_of_run)
  have assigned: "assigned_rows name (events_of (train_image_classifier vapi api) w0) =
      concat (map snd folds)" if "name = ''pred_probs'' \<or> name = ''features''" for name
    using postD [OF notebook_rows [OF ds split that] run] unfolding tr by simp
  have each: "count_list (assigned_rows ''pred_probs'' (events_of (train_image_classifier vapi api) w0)) i = 1 \<and>
        count_list (assigned_rows ''features'' (events_of (train_image_classifier vapi api) w0)) i = 1 \<and>
        (\<exists>k tr te sd sd1.
           k < length folds \<and> folds ! k = (tr, te) \<and> i \<in> set te \<and>
           files w1 (checkpoint_path (k + 1)) = Some (Checkpoint sd) \<and>
           files w1 (checkpoint_path 1) = Some (Checkpoint sd1) \<and>
           predicted_by api ds (length (classes ds)) sd te i (probs ! i) \<and>
           extracted_by api ds (length (classes ds)) nf sd1 te i (features ! i))"
    if i: "i < length (targets ds)" for i
  proof -
    from i cover have mem: "i \<in> set (concat (map snd folds))" by simp
    then obtain k tr te j where k: "k < length folds" "folds ! k = (tr, te)"
      and j: "j < length te" "te ! j = i" and e: "(k, tr, te) \<in> set (enumerate 0 folds)"
      by (rule fold_of_index)
    from rows e j(1) obtain sd sd1 where sd:
      "G (checkpoint_path (k + 1)) = Some (Checkpoint sd)"
      "G (checkpoint_path 1) = Some (Checkpoint sd1)"
      "predicted_by api ds (length (classes ds)) sd te (te ! j) (probs ! (te ! j))"
      "extracted_by api ds (length (classes ds)) nf sd1 te (te ! j) (features ! (te ! j))"
      unfolding fold_rows_ok_def by blast
    have ite: "i \<in> set te" using j by auto
    have once: "count_list (concat (map snd folds)) i = 1"
      using d mem by (rule distinct_count_list)
    show ?thesis
      by (intro conjI exI [of _ k] exI [of _ tr] exI [of _ te] exI [of _ sd] exI [of _ sd1])
        (use once k ite sd ck assigned in \<open>simp_all add: j(2) [symmetric]\<close>)
  qed
  have same: "fst (kf_split api kf (length (targets ds)) (targets ds) w) = Inr folds"
    for w :: "('sd stored, 'g) world"
    by (simp add: kf_split_result split)
  show ?thesis
    by (intro exI [of _ ds] exI [of _ folds] exI [of _ nf])
      (use ds same part w1 len each in simp)
qed

theorem every_row_stored_once_witness:
  "fst (train_image_classifier demo_vision demo_torch demo_world) =
     Inr (map (\<lambda>i. [of_nat i]) [0..<37], map (\<lambda>i. [if i < 33 then 4 else 36, of_nat i]) [0..<37]) \<and>
   kfold_partition 37 demo_folds \<and>
   count_list (assigned_rows ''pred_probs''
     (events_of (train_image_classifier demo_vision demo_torch) demo_world)) 32 = 1 \<and>
   count_list (assigned_rows ''features''
     (events_of (train_image_classifier demo_vision demo_torch) demo_world)) 32 = 1 \<and>
   (\<exists>k tr te sd sd1 nf.
      k < length demo_folds \<and> demo_folds ! k = (tr, te) \<and> 32 \<in> set te \<and>
      predicted_by demo_torch demo_dataset 2 sd te 32 [4, 32] \<and>
      extracted_by demo_torch demo_dataset 2 nf sd1 te 32 [32])"
proof -
  let ?features = "map (\<lambda>i. [of_nat i :: rat]) [0..<37]"
  let ?probs = "map (\<lambda>i. [if i < 33 then 4 else 36, of_nat i :: rat]) [0..<37]"
  obtain w1 where run: "train_image_classifier demo_vision demo_torch demo_world =
      (Inr (?features, ?probs), w1)"
    using demo_run by (metis prod.collapse)
  from every_row_stored_once [OF run] obtain ds folds nf where
    ds: "ImageFolder demo_torch (DATA_DIR @ ''/caltech256-subset'') (transform demo_vision) = Inr ds"
    and same: "\<forall>w :: ((nat \<times> bool) stored, unit) world.
        fst (kf_split demo_torch kf (length (targets ds)) (targets ds) w) = Inr folds"
    and part: "kfold_partition (length (targets ds)) folds"
    and each: "\<forall>i < length (targets ds).
        count_list (assigned_rows ''pred_probs''
          (events_of (train_image_classifier demo_vision demo_torch) demo_world)) i = 1 \<and>
        count_list (assigned_rows ''features''
          (events_of (train_image_classifier demo_vision demo_torch) demo_world)) i = 1 \<and>
        (\<exists>k tr te sd sd1.
           k < length folds \<and> folds ! k = (tr, te) \<and> i \<in> set te \<and>
           files w1 (checkpoint_path (k + 1)) = Some (Checkpoint sd) \<and>
           files w1 (checkpoint_path 1) = Some (Checkpoint sd1) \<and>
           predicted_by demo_torch ds (length (classes ds)) sd te i (?probs ! i) \<and>
           extracted_by demo_torch ds (length (classes ds)) nf sd1 te i (?features ! i))"
    by blast
  have dsd: "ds = demo_dataset" using ds demo_ImageFolder by simp
  have n: "length (targets demo_dataset) = 37" and nc: "length (classes demo_dataset) = 2"
    and t: "targets demo_dataset = replicate 37 0"
    by (simp_all add: demo_dataset_sel)
  have folds: "folds = demo_folds"
    using same [rule_format, of demo_world] unfolding dsd
    by (simp add: kf_split_result n t demo_split)
  have rows: "?probs ! 32 = [4, 32]" "?features ! 32 = [32]"
    by simp_all
  have "(32 :: nat) < length (targets ds)" by (simp add: dsd n)
  from each [rule_format, OF this]
  have "count_list (assigned_rows ''pred_probs''
          (events_of (train_image_classifier demo_vision demo_torch) demo_world)) 32 = 1 \<and>
        count_list (assigned_rows ''features''
          (events_of (train_image_classifier demo_vision demo_torch) demo_world)) 32 = 1 \<and>
        (\<exists>k tr te sd sd1 nf.
           k < length demo_folds \<and> demo_folds ! k = (tr, te) \<and> 32 \<in> set te \<and>
           predicted_by demo_torch demo_dataset 2 sd te 32 [4, 32] \<and>
           extracted_by demo_torch demo_dataset 2 nf sd1 te 32 [32])"
    unfolding rows dsd nc folds by blast
  moreover have "kfold_partition 37 demo_folds"
    using part unfolding dsd folds n .
  ultimately show ?thesis using demo_run by simp
qed

end
